theory Spec2Isabelle
  imports Complex_Main
begin

section \<open>The face and person tables\<close>

text \<open>
  The recognizer (\<open>Scripts/face_recognizer_insightface.py\<close>) works on two tables of the
  SQLite database created by \<open>Scripts/create_db.py\<close>. A table is the list of its rows in
  rowid order. Columns declared without \<open>NOT NULL\<close> are options. An embedding is the
  float32 array decoded by \<open>np.frombuffer\<close>; finite floats are real numbers and are
  compared as such. Timestamps are abstract clock readings.
\<close>

type_synonym embedding = "real list"

record face =
  f_id :: int
  f_image_id :: int
  f_person_id :: "int option"
  f_x :: int
  f_y :: int
  f_width :: int
  f_height :: int
  f_confidence :: "real option"
  f_embedding :: "embedding option"
  f_ignored :: "int option"
  f_created_at :: "nat option"
  f_updated_at :: "nat option"

record person =
  p_id :: int
  p_name :: "string option"
  p_confirmed :: "int option"
  p_created_at :: "nat option"

text \<open>
  \<open>persons.id\<close> is \<open>INTEGER PRIMARY KEY AUTOINCREMENT\<close>: SQLite keeps the largest id ever
  given out in \<open>sqlite_sequence\<close>, and \<open>DELETE FROM persons\<close> does not reset it.
\<close>

record store =
  faces :: "face list"
  persons :: "person list"
  persons_seq :: int

section \<open>The libraries and the database engine\<close>

text \<open>
  \<open>sklearn\<close> and \<open>numpy\<close> are not part of the repository; what they compute (with
  whatever rounding) is a parameter of every operation. \<open>DBSCAN env eps min_samples X\<close>
  is \<open>DBSCAN(eps, min_samples, metric='cosine').fit_predict(X)\<close>: one label per sample,
  \<open>-1\<close> for noise. \<open>np_halve env (np_add env a b)\<close> is \<open>(a + b) / 2\<close> on arrays.
  \<open>INSIGHTFACE_AVAILABLE\<close> is the module flag set when the imports succeed; \<open>main\<close>
  exits before building the recognizer when it is false.

  \<open>DBSCAN_error env eps min_samples X\<close> is the exception that
  \<open>DBSCAN(eps, min_samples, metric='cosine').fit_predict(X)\<close> raises in \<open>cluster_faces\<close>,
  if it raises: \<open>sklearn\<close> rejects \<open>eps <= 0\<close> and \<open>min_samples < 1\<close>, both of which the
  command line accepts. Otherwise the libraries are taken to return.

  A similarity is an \<open>np.float32\<close> and \<open>similarity_threshold\<close> is a Python float.
  \<open>float_threshold env t\<close> is the threshold as \<open>similarity > similarity_threshold\<close>
  compares it: NumPy 2 converts the Python float to \<open>float32\<close> first, rounding it (0.6
  becomes 5033165/8388608), and earlier versions compare the double as it is.

  The join of \<open>persons\<close> and \<open>faces\<close> in \<open>cluster_new_faces\<close> has no \<open>ORDER BY\<close>, so
  the order of its rows is the order of the loops the query planner picks:
  \<open>ScanFaces\<close> walks \<open>faces\<close> and looks each person up by primary key,
  \<open>ScanPersons\<close> walks \<open>persons\<close> and looks its faces up through
  \<open>idx_faces_person_id\<close>.
\<close>

datatype join_plan = ScanFaces | ScanPersons

datatype error = ValueError

record env =
  INSIGHTFACE_AVAILABLE :: bool
  cosine_similarity :: "embedding \<Rightarrow> embedding \<Rightarrow> real"
  float_threshold :: "real \<Rightarrow> real"
  np_mean :: "embedding list \<Rightarrow> embedding"
  np_add :: "embedding \<Rightarrow> embedding \<Rightarrow> embedding"
  np_halve :: "embedding \<Rightarrow> embedding"
  DBSCAN :: "real \<Rightarrow> int \<Rightarrow> embedding list \<Rightarrow> int list"
  DBSCAN_error :: "real \<Rightarrow> int \<Rightarrow> embedding list \<Rightarrow> error option"
  join_order :: join_plan

section \<open>SQL statements\<close>

text \<open>\<open>SELECT id, embedding FROM faces WHERE embedding IS NOT NULL\<close>\<close>

definition select_faces_with_embedding :: "store \<Rightarrow> (int \<times> embedding) list" where
  "select_faces_with_embedding s =
     List.map_filter (\<lambda>f. map_option (\<lambda>e. (f_id f, e)) (f_embedding f)) (faces s)"

text \<open>\<open>SELECT id, embedding FROM faces WHERE embedding IS NOT NULL AND person_id IS NULL\<close>\<close>

definition select_new_faces :: "store \<Rightarrow> (int \<times> embedding) list" where
  "select_new_faces s =
     List.map_filter
       (\<lambda>f. if f_person_id f = None then map_option (\<lambda>e. (f_id f, e)) (f_embedding f) else None)
       (faces s)"

text \<open>
  \<open>SELECT p.id, p.name, f.embedding FROM persons p JOIN faces f ON p.id = f.person_id
  WHERE f.embedding IS NOT NULL\<close>
\<close>

definition select_existing_data :: "join_plan \<Rightarrow> store \<Rightarrow> (int \<times> string option \<times> embedding) list" where
  "select_existing_data plan s =
     (case plan of
        ScanFaces \<Rightarrow>
          concat (map (\<lambda>f. case f_person_id f of
                             None \<Rightarrow> []
                           | Some pid \<Rightarrow>
                               (case f_embedding f of
                                  None \<Rightarrow> []
                                | Some e \<Rightarrow> map (\<lambda>p. (p_id p, p_name p, e))
                                              (filter (\<lambda>p. p_id p = pid) (persons s))))
                      (faces s))
      | ScanPersons \<Rightarrow>
          concat (map (\<lambda>p. List.map_filter
                             (\<lambda>f. if f_person_id f = Some (p_id p)
                                  then map_option (\<lambda>e. (p_id p, p_name p, e)) (f_embedding f)
                                  else None)
                             (faces s))
                      (persons s)))"

text \<open>\<open>UPDATE faces SET person_id = ?, updated_at = CURRENT_TIMESTAMP WHERE id = ?\<close>\<close>

definition update_face_person :: "nat \<Rightarrow> int \<Rightarrow> int \<Rightarrow> store \<Rightarrow> store" where
  "update_face_person now pid fid s =
     s\<lparr>faces := map (\<lambda>f. if f_id f = fid
                           then f\<lparr>f_person_id := Some pid, f_updated_at := Some now\<rparr>
                           else f) (faces s)\<rparr>"

text \<open>
  \<open>INSERT INTO persons (name, confirmed, created_at) VALUES (?, 0, CURRENT_TIMESTAMP)\<close>
  followed by \<open>cursor.lastrowid\<close>.
\<close>

definition next_person_id :: "store \<Rightarrow> int" where
  "next_person_id s = fold max (map p_id (persons s)) (persons_seq s) + 1"

definition insert_person :: "nat \<Rightarrow> string \<Rightarrow> store \<Rightarrow> store \<times> int" where
  "insert_person now name s =
     (let pid = next_person_id s
      in (s\<lparr>persons := persons s @
               [\<lparr>p_id = pid, p_name = Some name, p_confirmed = Some 0, p_created_at = Some now\<rparr>],
             persons_seq := pid\<rparr>, pid))"

section \<open>Python values\<close>

text \<open>\<open>str\<close> of an integer, as the f-strings \<open>f"Person {n}"\<close> format it.\<close>

fun str_nat :: "nat \<Rightarrow> string" where
  "str_nat n = (if n < 10 then [''0123456789'' ! n]
                else str_nat (n div 10) @ [''0123456789'' ! (n mod 10)])"

declare str_nat.simps [simp del]

definition str_int :: "int \<Rightarrow> string" where
  "str_int i = (if i < 0 then ''-'' @ str_nat (nat (- i)) else str_nat (nat i))"

text \<open>
  Iterating a \<open>set\<close> of cluster labels. DBSCAN numbers its clusters \<open>0, 1, 2, ...\<close>, and
  CPython stores small distinct integers at their own value, so the iteration is in
  ascending order.
\<close>

definition set_iter :: "int list \<Rightarrow> int list" where
  "set_iter xs = sort (remdups xs)"

section \<open>Batch clustering\<close>

text \<open>
  The faces of one cluster: \<open>face_indices\<close> are the positions of \<open>cluster_id\<close> in
  \<open>cluster_labels\<close>, and each \<open>face_ids[face_idx]\<close> is updated in turn. There is one
  label per sample, so the positions are within \<open>face_ids\<close>. The loop of
  \<open>cluster_new_faces\<close> over \<open>unmatched_ids\<close> is the same.
\<close>

definition assign_cluster :: "nat \<Rightarrow> int list \<Rightarrow> int list \<Rightarrow> int \<Rightarrow> int \<Rightarrow> store \<Rightarrow> store" where
  "assign_cluster now face_ids cluster_labels cluster_id person_id s =
     (let face_indices = filter (\<lambda>i. cluster_labels ! i = cluster_id) [0..<length cluster_labels]
      in fold (\<lambda>face_idx. update_face_person now person_id (face_ids ! face_idx)) face_indices s)"

text \<open>
  \<open>cluster_faces\<close> returns, or the clustering raises. The clustering runs before the
  \<open>UPDATE\<close> and the \<open>DELETE\<close>, so when it raises no statement has been executed and the
  database is as it was.
\<close>

datatype outcome = Returned store | Raised error store

fun database :: "outcome \<Rightarrow> store" where
  "database (Returned s) = s"
| "database (Raised e s) = s"

definition cluster_faces :: "env \<Rightarrow> nat \<Rightarrow> real \<Rightarrow> int \<Rightarrow> store \<Rightarrow> outcome" where
  "cluster_faces env now eps min_samples s =
     (if \<not> INSIGHTFACE_AVAILABLE env then Returned s
      else
        let face_data = select_faces_with_embedding s
        in if int (length face_data) < min_samples then Returned s
           else
             let face_ids = map fst face_data;
                 embeddings = map snd face_data
             in (case DBSCAN_error env eps min_samples embeddings of
                   Some e \<Rightarrow> Raised e s
                 | None \<Rightarrow>
                     let cluster_labels = DBSCAN env eps min_samples embeddings;
                         unique_clusters = set_iter (filter (\<lambda>l. l \<noteq> - 1) cluster_labels);
                         s1 = s\<lparr>faces := map (\<lambda>f. f\<lparr>f_person_id := None\<rparr>) (faces s)\<rparr>;
                         s2 = s1\<lparr>persons := []\<rparr>
                     in Returned
                          (fold (\<lambda>cluster_id st.
                                   let (st', person_id) =
                                         insert_person now (''Person '' @ str_int (cluster_id + 1)) st
                                   in assign_cluster now face_ids cluster_labels cluster_id person_id st')
                                unique_clusters s2)))"

section \<open>Incremental clustering\<close>

text \<open>
  The dictionary \<open>person_centroids\<close> is an association list in insertion order, the
  order in which a \<open>dict\<close> is iterated. (\<open>person_names\<close> is only printed.)
\<close>

definition add_existing_row ::
  "int \<times> string option \<times> embedding \<Rightarrow> (int \<times> embedding list) list \<Rightarrow> (int \<times> embedding list) list" where
  "add_existing_row row person_centroids =
     (case row of (person_id, person_name, embedding) \<Rightarrow>
        let d = (if person_id \<notin> fst ` set person_centroids
                 then person_centroids @ [(person_id, [])] else person_centroids)
        in map (\<lambda>(k, v). if k = person_id then (k, v @ [embedding]) else (k, v)) d)"

definition calculate_centroids ::
  "env \<Rightarrow> (int \<times> string option \<times> embedding) list \<Rightarrow> (int \<times> embedding) list" where
  "calculate_centroids env existing_data =
     map (\<lambda>(person_id, embeddings). (person_id, np_mean env embeddings))
         (fold add_existing_row existing_data [])"

text \<open>The inner loop over \<open>person_centroids.items()\<close>, from \<open>best_person_id = None\<close> and
  \<open>best_similarity = 0\<close>. Its \<open>threshold\<close> is \<open>similarity_threshold\<close> as the comparison with
  the \<open>np.float32\<close> similarity takes it: \<open>cluster_new_faces\<close> passes
  \<open>float_threshold env similarity_threshold\<close>. The similarities are floats, which are
  compared exactly.\<close>

definition closest_person :: "env \<Rightarrow> real \<Rightarrow> (int \<times> embedding) list \<Rightarrow> embedding \<Rightarrow> int option \<times> real" where
  "closest_person env threshold person_centroids face_embedding =
     fold (\<lambda>(person_id, centroid) (best_person_id, best_similarity).
             let similarity = cosine_similarity env face_embedding centroid
             in if similarity > best_similarity \<and> similarity > threshold
                then (Some person_id, similarity)
                else (best_person_id, best_similarity))
          person_centroids (None, 0)"

text \<open>The variables of phase 1: the database, the running centroids, \<open>assigned_count\<close> and
  \<open>unmatched_faces\<close>.\<close>

record matching =
  m_store :: store
  m_centroids :: "(int \<times> embedding) list"
  m_assigned_count :: nat
  m_unmatched :: "(int \<times> embedding) list"

text \<open>One turn of \<open>for face_row in new_faces\<close>. \<open>if best_person_id:\<close> is Python truth:
  neither \<open>None\<close> nor \<open>0\<close>.\<close>

definition match_face :: "env \<Rightarrow> nat \<Rightarrow> real \<Rightarrow> int \<times> embedding \<Rightarrow> matching \<Rightarrow> matching" where
  "match_face env now threshold face_row m =
     (case face_row of (face_id, face_embedding) \<Rightarrow>
        (case closest_person env threshold (m_centroids m) face_embedding of
           (Some best_person_id, best_similarity) \<Rightarrow>
             if best_person_id \<noteq> 0
             then m\<lparr>m_store := update_face_person now best_person_id face_id (m_store m),
                    m_assigned_count := m_assigned_count m + 1,
                    m_centroids :=
                      map (\<lambda>(k, old_centroid).
                             if k = best_person_id
                             then (k, np_halve env (np_add env old_centroid face_embedding))
                             else (k, old_centroid))
                          (m_centroids m)\<rparr>
             else m\<lparr>m_unmatched := m_unmatched m @ [(face_id, face_embedding)]\<rparr>
         | (None, best_similarity) \<Rightarrow>
             m\<lparr>m_unmatched := m_unmatched m @ [(face_id, face_embedding)]\<rparr>))"

definition match_faces ::
  "env \<Rightarrow> nat \<Rightarrow> real \<Rightarrow> (int \<times> embedding) list \<Rightarrow> matching \<Rightarrow> matching" where
  "match_faces env now threshold new_faces m =
     fold (match_face env now threshold) new_faces m"

text \<open>Phase 2: new people from the unmatched faces. The result is the database and
  \<open>new_people_count\<close>. The clustering is called with \<open>eps = 0.4\<close> and
  \<open>min_samples_new\<close>; \<open>sklearn\<close> rejects \<open>min_samples_new < 1\<close>, and the operation is
  modelled for the runs in which the call returns.\<close>

definition create_new_people :: "env \<Rightarrow> nat \<Rightarrow> int \<Rightarrow> matching \<Rightarrow> store \<times> nat" where
  "create_new_people env now min_samples_new m =
     (if int (length (m_unmatched m)) \<ge> min_samples_new
      then
        let unmatched_embeddings = map snd (m_unmatched m);
            unmatched_ids = map fst (m_unmatched m);
            cluster_labels = DBSCAN env (4 / 10) min_samples_new unmatched_embeddings;
            unique_clusters = set_iter (filter (\<lambda>label. label \<noteq> - 1) cluster_labels)
        in fold (\<lambda>cluster_id (st, new_people_count).
                   let next_person_num = int (length (m_centroids m)) + int new_people_count + 1;
                       (st', new_person_id) =
                          insert_person now (''Person '' @ str_int next_person_num) st
                   in (assign_cluster now unmatched_ids cluster_labels cluster_id new_person_id st',
                       new_people_count + 1))
                unique_clusters (m_store m, 0)
      else (m_store m, 0))"

text \<open>\<open>cluster_new_faces\<close> returns the pair \<open>(assigned_count, new_people_count)\<close>, or
  \<open>None\<close> from one of its three bare \<open>return\<close>s.\<close>

definition cluster_new_faces :: "env \<Rightarrow> nat \<Rightarrow> real \<Rightarrow> int \<Rightarrow> store \<Rightarrow> store \<times> (nat \<times> nat) option" where
  "cluster_new_faces env now similarity_threshold min_samples_new s =
     (if \<not> INSIGHTFACE_AVAILABLE env then (s, None)
      else
        let new_faces = select_new_faces s
        in if new_faces = [] then (s, None)
           else
             let existing_data = select_existing_data (join_order env) s
             in if existing_data = [] then (s, None)
                else
                  let person_centroids = calculate_centroids env existing_data;
                      m = match_faces env now (float_threshold env similarity_threshold) new_faces
                            \<lparr>m_store = s, m_centroids = person_centroids,
                             m_assigned_count = 0, m_unmatched = []\<rparr>;
                      (s', new_people_count) = create_new_people env now min_samples_new m
                  in (s', Some (m_assigned_count m, new_people_count)))"

text \<open>The variables of \<open>cluster_new_faces\<close> when phase 1 is over.\<close>

definition phase1 :: "env \<Rightarrow> nat \<Rightarrow> real \<Rightarrow> store \<Rightarrow> matching" where
  "phase1 env now similarity_threshold s =
     match_faces env now (float_threshold env similarity_threshold) (select_new_faces s)
       \<lparr>m_store = s,
        m_centroids = calculate_centroids env (select_existing_data (join_order env) s),
        m_assigned_count = 0, m_unmatched = []\<rparr>"

section \<open>The convergence loop\<close>

text \<open>
  The local variables of \<open>cluster_new_faces_loop\<close>; \<open>history\<close> records what each
  iteration got back, in order. \<open>assigned, new_people = None\<close> raises \<open>TypeError\<close>.
  The function returns \<open>(total_assigned, total_new_people)\<close>. The pass of iteration
  \<open>i\<close> runs at time \<open>clock i\<close>.
\<close>

record loop_vars =
  total_assigned :: nat
  total_new_people :: nat
  iteration :: int
  history :: "(nat \<times> nat) list"

datatype loop_outcome = Completed store loop_vars | TypeError store loop_vars

function cluster_loop ::
  "env \<Rightarrow> (int \<Rightarrow> nat) \<Rightarrow> real \<Rightarrow> int \<Rightarrow> int \<Rightarrow> store \<Rightarrow> loop_vars \<Rightarrow> loop_outcome" where
  "cluster_loop env clock similarity_threshold min_samples_new max_iterations s v =
     (if iteration v < max_iterations
      then
        let v1 = v\<lparr>iteration := iteration v + 1\<rparr>
        in (case cluster_new_faces env (clock (iteration v1)) similarity_threshold min_samples_new s of
              (s', None) \<Rightarrow> TypeError s' v1
            | (s', Some (assigned, new_people)) \<Rightarrow>
                let v2 = v1\<lparr>total_assigned := total_assigned v1 + assigned,
                            total_new_people := total_new_people v1 + new_people,
                            history := history v1 @ [(assigned, new_people)]\<rparr>
                in if assigned = 0 \<and> new_people = 0
                   then Completed s' v2
                   else cluster_loop env clock similarity_threshold min_samples_new max_iterations s' v2)
      else Completed s v)"
  by pat_completeness auto
termination
  by (relation "measure (\<lambda>(env, clock, thr, msn, max_iterations, s, v). nat (max_iterations - iteration v))")
     auto

declare cluster_loop.simps [simp del]

definition cluster_new_faces_loop ::
  "env \<Rightarrow> (int \<Rightarrow> nat) \<Rightarrow> real \<Rightarrow> int \<Rightarrow> int \<Rightarrow> store \<Rightarrow> loop_outcome" where
  "cluster_new_faces_loop env clock similarity_threshold min_samples_new max_iterations s =
     cluster_loop env clock similarity_threshold min_samples_new max_iterations s
       \<lparr>total_assigned = 0, total_new_people = 0, iteration = 0, history = []\<rparr>"

text \<open>The variables a run of the loop ends with, however it ends.\<close>

fun outcome_vars :: "loop_outcome \<Rightarrow> loop_vars" where
  "outcome_vars (Completed s v) = v"
| "outcome_vars (TypeError s v) = v"

section \<open>Labelling and pruning\<close>

definition label_person :: "int \<Rightarrow> string \<Rightarrow> store \<Rightarrow> store" where
  "label_person person_id name s =
     (case find (\<lambda>p. p_id p = person_id) (persons s) of
        None \<Rightarrow> s
      | Some current_person \<Rightarrow>
          (case find (\<lambda>p. p_name p = Some name \<and> p_id p \<noteq> person_id) (persons s) of
             Some existing_person \<Rightarrow>
               s\<lparr>faces := map (\<lambda>f. if f_person_id f = Some person_id
                                     then f\<lparr>f_person_id := Some (p_id existing_person)\<rparr>
                                     else f) (faces s),
                 persons := filter (\<lambda>p. p_id p \<noteq> person_id) (persons s)\<rparr>
           | None \<Rightarrow>
               s\<lparr>persons := map (\<lambda>p. if p_id p = person_id
                                       then p\<lparr>p_name := Some name, p_confirmed := Some 1\<rparr>
                                       else p) (persons s)\<rparr>))"

definition delete_unconfirmed_people :: "store \<Rightarrow> store" where
  "delete_unconfirmed_people s =
     (let unconfirmed_count = length (filter (\<lambda>p. p_confirmed p = Some 0) (persons s))
      in if unconfirmed_count = 0 then s
         else
           s\<lparr>faces := map (\<lambda>f. if (\<exists>p \<in> set (persons s).
                                       p_confirmed p = Some 0 \<and> f_person_id f = Some (p_id p))
                                 then f\<lparr>f_person_id := None\<rparr>
                                 else f) (faces s),
             persons := filter (\<lambda>p. p_confirmed p \<noteq> Some 0) (persons s)\<rparr>)"

section \<open>Invariants used in the proofs\<close>

text \<open>What holds of the database while new persons are inserted after a reset at
  sequence value \<open>seq0\<close>.\<close>

definition rebuilt :: "int \<Rightarrow> store \<Rightarrow> bool" where
  "rebuilt seq0 st =
     (seq0 \<le> persons_seq st \<and>
      (\<forall>p \<in> set (persons st). seq0 < p_id p \<and> p_id p \<le> persons_seq st \<and> p_confirmed p = Some 0) \<and>
      (\<forall>f \<in> set (faces st). f_person_id f = None \<or> f_person_id f \<in> Some ` p_id ` set (persons st)))"


section \<open>Reference inputs\<close>

text \<open>
  The libraries in exact arithmetic, for running the operations on concrete data.
  \<open>sklearn\<close>'s \<open>cosine_similarity\<close> divides each row by its norm (a zero row stays zero)
  and multiplies; \<open>np.mean(..., axis=0)\<close> averages each coordinate. The clustering is
  passed in, since DBSCAN itself is not modelled; its parameter check is the one of
  \<open>sklearn\<close>. The threshold is compared as it is: the thresholds used below are either
  \<open>float32\<close> numbers or far from every similarity they are compared with, so that the
  conversion of NumPy 2 decides nothing.
\<close>

definition dot :: "embedding \<Rightarrow> embedding \<Rightarrow> real" where
  "dot a b = sum_list (map2 (*) a b)"

definition exact_cosine_similarity :: "embedding \<Rightarrow> embedding \<Rightarrow> real" where
  "exact_cosine_similarity a b = dot a b / (sqrt (dot a a) * sqrt (dot b b))"

definition exact_mean :: "embedding list \<Rightarrow> embedding" where
  "exact_mean es =
     (case es of
        [] \<Rightarrow> []
      | e # _ \<Rightarrow> map (\<lambda>i. sum_list (map (\<lambda>x. x ! i) es) / real (length es)) [0..<length e])"

definition exact_env :: "join_plan \<Rightarrow> (real \<Rightarrow> int \<Rightarrow> embedding list \<Rightarrow> int list) \<Rightarrow> env" where
  "exact_env plan clustering =
     \<lparr>INSIGHTFACE_AVAILABLE = True,
      cosine_similarity = exact_cosine_similarity,
      float_threshold = (\<lambda>t. t),
      np_mean = exact_mean,
      np_add = map2 (+),
      np_halve = map (\<lambda>x. x / 2),
      DBSCAN = clustering,
      DBSCAN_error = (\<lambda>eps min_samples X.
                        if eps \<le> 0 \<or> min_samples < 1 then Some ValueError else None),
      join_order = plan\<rparr>"

text \<open>A clustering that finds no dense group, and one that puts every sample in group 0
  (what DBSCAN returns for \<open>min_samples\<close> or more identical samples).\<close>

definition all_noise :: "real \<Rightarrow> int \<Rightarrow> embedding list \<Rightarrow> int list" where
  "all_noise eps min_samples X = replicate (length X) (- 1)"

definition one_group :: "real \<Rightarrow> int \<Rightarrow> embedding list \<Rightarrow> int list" where
  "one_group eps min_samples X = replicate (length X) 0"

text \<open>A face row as \<open>extract_face_embeddings\<close> inserts it, with the given id, person,
  embedding and ignored flag.\<close>

definition mk_face :: "int \<Rightarrow> int option \<Rightarrow> embedding option \<Rightarrow> int option \<Rightarrow> face" where
  "mk_face fid pid emb ign =
     \<lparr>f_id = fid, f_image_id = 1, f_person_id = pid, f_x = 0, f_y = 0, f_width = 10,
      f_height = 10, f_confidence = Some (9 / 10), f_embedding = emb, f_ignored = ign,
      f_created_at = Some 0, f_updated_at = Some 0\<rparr>"

definition mk_person :: "int \<Rightarrow> string \<Rightarrow> int \<Rightarrow> person" where
  "mk_person pid name conf =
     \<lparr>p_id = pid, p_name = Some name, p_confirmed = Some conf, p_created_at = Some 0\<rparr>"

definition store7 :: store where
  "store7 =
     \<lparr>faces = [mk_face 1 (Some 1) (Some [1, 0]) (Some 0),
               mk_face 2 (Some 2) (Some [0, 1]) (Some 0),
               mk_face 3 None (Some [1, 1]) (Some 0)],
      persons = [mk_person 1 ''Person 1'' 0, mk_person 2 ''Alice'' 1],
      persons_seq = 2\<rparr>"


definition store9 :: store where
  "store9 =
     \<lparr>faces = [mk_face 1 (Some 1) (Some [1, 0]) (Some 0),
               mk_face 2 None (Some [1, 0]) (Some 0),
               mk_face 3 None (Some [0, 1]) (Some 0)],
      persons = [mk_person 1 ''Person 1'' 0],
      persons_seq = 1\<rparr>"

text \<open>\<open>store9\<close> after face 2 has been given to person 1 at time 5.\<close>

definition store9b :: store where
  "store9b =
     \<lparr>faces = [mk_face 1 (Some 1) (Some [1, 0]) (Some 0),
               (mk_face 2 (Some 1) (Some [1, 0]) (Some 0))\<lparr>f_updated_at := Some 5\<rparr>,
               mk_face 3 None (Some [0, 1]) (Some 0)],
      persons = [mk_person 1 ''Person 1'' 0],
      persons_seq = 1\<rparr>"

text \<open>Phase 1 on \<open>store9\<close> before the first face: person 1 has centroid \<open>[1, 0]\<close>.\<close>

definition matching9 :: matching where
  "matching9 = \<lparr>m_store = store9, m_centroids = [(1, [1, 0])], m_assigned_count = 0, m_unmatched = []\<rparr>"

text \<open>Two people with the same centroid \<open>[1, 0]\<close>; the face of person 2 has the lower face
  id. Face 3 is new. In \<open>store8z\<close> the new face is orthogonal to both centroids.\<close>

definition store8 :: store where
  "store8 =
     \<lparr>faces = [mk_face 1 (Some 2) (Some [1, 0]) (Some 0),
               mk_face 2 (Some 1) (Some [1, 0]) (Some 0),
               mk_face 3 None (Some [1, 0]) (Some 0)],
      persons = [mk_person 1 ''Person 1'' 0, mk_person 2 ''Person 2'' 0],
      persons_seq = 2\<rparr>"

definition store8z :: store where
  "store8z =
     \<lparr>faces = [mk_face 1 (Some 2) (Some [1, 0]) (Some 0),
               mk_face 2 (Some 1) (Some [1, 0]) (Some 0),
               mk_face 3 None (Some [0, 1]) (Some 0)],
      persons = [mk_person 1 ''Person 1'' 0, mk_person 2 ''Person 2'' 0],
      persons_seq = 2\<rparr>"

text \<open>Person 5 ("Bob", 3 faces, unconfirmed) and person 7 ("Alice", 4 faces, confirmed).
  In \<open>store4d\<close> persons 7 and 8 are both called "Person 3", as happens when
  \<open>cluster_new_faces\<close> names a new person by the number of centroids.\<close>

definition store4 :: store where
  "store4 =
     \<lparr>faces = [mk_face 1 (Some 5) (Some [1, 0]) (Some 0),
               mk_face 2 (Some 5) (Some [1, 0]) (Some 0),
               mk_face 3 (Some 5) (Some [1, 0]) (Some 0),
               mk_face 4 (Some 7) (Some [0, 1]) (Some 0),
               mk_face 5 (Some 7) (Some [0, 1]) (Some 0),
               mk_face 6 (Some 7) (Some [0, 1]) (Some 0),
               mk_face 7 (Some 7) (Some [0, 1]) (Some 0)],
      persons = [mk_person 5 ''Bob'' 0, mk_person 7 ''Alice'' 1],
      persons_seq = 7\<rparr>"

definition store4d :: store where
  "store4d =
     \<lparr>faces = [mk_face 1 (Some 5) (Some [1, 0]) (Some 0),
               mk_face 4 (Some 7) (Some [0, 1]) (Some 0),
               mk_face 8 (Some 8) (Some [1, 1]) (Some 0)],
      persons = [mk_person 5 ''Bob'' 0, mk_person 7 ''Person 3'' 0, mk_person 8 ''Person 3'' 0],
      persons_seq = 8\<rparr>"


text \<open>
  Person 1 has face 1 with embedding \<open>[19, 0]\<close>. Face 2, \<open>[5, 12]\<close>, has similarity
  5/13 to it; face 3, \<open>[16, 12]\<close>, has similarity 4/5. With faces 1 and 3 the centroid of
  person 1 is \<open>[35/2, 6]\<close>, to which face 2 has similarity 319/481. \<open>store1b\<close> is
  \<open>store1\<close> after face 3 has gone to person 1 at time 5, \<open>store1c\<close> after face 2 has
  followed at time 6.
\<close>

definition store1 :: store where
  "store1 =
     \<lparr>faces = [mk_face 1 (Some 1) (Some [19, 0]) (Some 0),
               mk_face 2 None (Some [5, 12]) (Some 0),
               mk_face 3 None (Some [16, 12]) (Some 0)],
      persons = [mk_person 1 ''Person 1'' 0],
      persons_seq = 1\<rparr>"

definition store1b :: store where
  "store1b =
     \<lparr>faces = [mk_face 1 (Some 1) (Some [19, 0]) (Some 0),
               mk_face 2 None (Some [5, 12]) (Some 0),
               (mk_face 3 (Some 1) (Some [16, 12]) (Some 0))\<lparr>f_updated_at := Some 5\<rparr>],
      persons = [mk_person 1 ''Person 1'' 0],
      persons_seq = 1\<rparr>"

definition store1c :: store where
  "store1c =
     \<lparr>faces = [mk_face 1 (Some 1) (Some [19, 0]) (Some 0),
               (mk_face 2 (Some 1) (Some [5, 12]) (Some 0))\<lparr>f_updated_at := Some 6\<rparr>,
               (mk_face 3 (Some 1) (Some [16, 12]) (Some 0))\<lparr>f_updated_at := Some 5\<rparr>],
      persons = [mk_person 1 ''Person 1'' 0],
      persons_seq = 1\<rparr>"

text \<open>\<open>store10\<close> with one new face, equal to the centroid of person 1, and the same after
  that face has gone to person 1 at time 5.\<close>

definition store11 :: store where
  "store11 =
     \<lparr>faces = [mk_face 1 (Some 1) (Some [1, 0]) (Some 0),
               mk_face 2 None (Some [1, 0]) (Some 0)],
      persons = [mk_person 1 ''Person 1'' 0],
      persons_seq = 1\<rparr>"

definition store11b :: store where
  "store11b =
     \<lparr>faces = [mk_face 1 (Some 1) (Some [1, 0]) (Some 0),
               (mk_face 2 (Some 1) (Some [1, 0]) (Some 0))\<lparr>f_updated_at := Some 5\<rparr>],
      persons = [mk_person 1 ''Person 1'' 0],
      persons_seq = 1\<rparr>"

text \<open>Person 1 with face 1; face 2 is new, equal to face 1, and has been marked ignored
  (\<open>ignore_face\<close> in \<open>face_api_server.py\<close> sets \<open>ignored = 1\<close>).\<close>

definition store2 :: store where
  "store2 =
     \<lparr>faces = [mk_face 1 (Some 1) (Some [1, 0]) (Some 0),
               mk_face 2 None (Some [1, 0]) (Some 1)],
      persons = [mk_person 1 ''Person 1'' 0],
      persons_seq = 1\<rparr>"

text \<open>Persons 1 ("Alice") and 3 ("Person 3") with one face each, after person 2 has been
  merged away, and two new faces similar to neither.\<close>

definition store4r :: store where
  "store4r =
     \<lparr>faces = [mk_face 1 (Some 1) (Some [1, 0]) (Some 0),
               mk_face 2 (Some 3) (Some [- 1, 0]) (Some 0),
               mk_face 3 None (Some [0, 1]) (Some 0),
               mk_face 4 None (Some [0, 1]) (Some 0)],
      persons = [mk_person 1 ''Alice'' 1, mk_person 3 ''Person 3'' 0],
      persons_seq = 3\<rparr>"

section \<open>Properties\<close>

subsection \<open>Reading the tables\<close>



subsection \<open>Deleting unconfirmed people\<close>

text \<open>
  C7. \<open>delete_unconfirmed_people\<close> keeps exactly the person rows whose \<open>confirmed\<close> is
  not 0, each unchanged and in place; it keeps every face row, and the row at each position
  is the old one with \<open>person_id\<close> set to NULL if it pointed to a person with
  \<open>confirmed = 0\<close> and with \<open>person_id\<close> as it was otherwise. No other column of a face
  (embedding, box, confidence) changes.
\<close>

theorem delete_unconfirmed_people_effect:
  "persons (delete_unconfirmed_people s) = filter (\<lambda>p. p_confirmed p \<noteq> Some 0) (persons s) \<and>
   length (faces (delete_unconfirmed_people s)) = length (faces s) \<and>
   (\<forall>i < length (faces s).
      faces (delete_unconfirmed_people s) ! i =
        (faces s ! i)\<lparr>f_person_id :=
           (if \<exists>p \<in> set (persons s). p_confirmed p = Some 0 \<and> f_person_id (faces s ! i) = Some (p_id p)
            then None else f_person_id (faces s ! i))\<rparr>)"
proof (cases "filter (\<lambda>p. p_confirmed p = Some 0) (persons s) = []")
  case True
  then have none: "\<forall>p \<in> set (persons s). p_confirmed p \<noteq> Some 0"
    by (simp add: filter_empty_conv)
  then have "filter (\<lambda>p. p_confirmed p \<noteq> Some 0) (persons s) = persons s"
    by simp
  with True none show ?thesis
    by (simp add: delete_unconfirmed_people_def)
next
  case False
  then show ?thesis
    by (auto simp: delete_unconfirmed_people_def Let_def)
qed

theorem delete_unconfirmed_people_effect_witness:
  "persons (delete_unconfirmed_people store7) = [mk_person 2 ''Alice'' 1] \<and>
   faces (delete_unconfirmed_people store7) ! 0 = mk_face 1 None (Some [1, 0]) (Some 0) \<and>
   faces (delete_unconfirmed_people store7) ! 1 = mk_face 2 (Some 2) (Some [0, 1]) (Some 0)"
  using delete_unconfirmed_people_effect [of store7]
  by (simp add: store7_def mk_person_def mk_face_def)

subsection \<open>When the incremental pass returns nothing\<close>



subsection \<open>The convergence loop\<close>

lemma cluster_loop_history:
  "\<exists>h. history (outcome_vars (cluster_loop env clock thr msn maxit s v)) = history v @ h \<and>
       iteration (outcome_vars (cluster_loop env clock thr msn maxit s v)) \<le> max (iteration v) maxit \<and>
       (\<forall>k. Suc k < length h \<longrightarrow> h ! k \<noteq> (0, 0)) \<and>
       (case cluster_loop env clock thr msn maxit s v of
          Completed s' v' \<Rightarrow>
            iteration v' = iteration v + int (length h) \<and>
            (iteration v' < maxit \<longrightarrow> h \<noteq> [] \<and> last h = (0, 0))
        | TypeError s' v' \<Rightarrow>
            iteration v' = iteration v + int (length h) + 1 \<and> (0, 0) \<notin> set h)"
proof (induction env clock thr msn maxit s v rule: cluster_loop.induct)
  case (1 env clock thr msn maxit s v)
  let ?v1 = "v\<lparr>iteration := iteration v + 1\<rparr>"
  show ?case
  proof (cases "iteration v < maxit")
    case False
    then show ?thesis
      by (subst (1 2 3) cluster_loop.simps) simp
  next
    case lt: True
    obtain s' r where pass: "cluster_new_faces env (clock (iteration ?v1)) thr msn s = (s', r)"
      by (cases "cluster_new_faces env (clock (iteration ?v1)) thr msn s")
    show ?thesis
    proof (cases r)
      case None
      with lt pass show ?thesis
        by (subst (1 2 3) cluster_loop.simps) (simp add: Let_def)
    next
      case (Some an)
      obtain a n where an: "an = (a, n)" by (cases an)
      let ?v2 = "?v1\<lparr>total_assigned := total_assigned ?v1 + a,
                       total_new_people := total_new_people ?v1 + n,
                       history := history ?v1 @ [(a, n)]\<rparr>"
      show ?thesis
      proof (cases "a = 0 \<and> n = 0")
        case True
        have eq: "cluster_loop env clock thr msn maxit s v = Completed s' ?v2"
          using lt pass Some an True
          by (subst cluster_loop.simps) (simp add: Let_def)
        show ?thesis
          unfolding eq using True lt by (intro exI [of _ "[(a, n)]"]) simp
      next
        case False
        have eq: "cluster_loop env clock thr msn maxit s v =
                  cluster_loop env clock thr msn maxit s' ?v2"
          using lt pass Some an False
          by (subst cluster_loop.simps) (auto simp: Let_def)
        from "1.IH" [OF lt refl pass [symmetric] Some an [symmetric] refl False]
        obtain h where h:
          "history (outcome_vars (cluster_loop env clock thr msn maxit s' ?v2)) = history ?v2 @ h"
          "iteration (outcome_vars (cluster_loop env clock thr msn maxit s' ?v2))
             \<le> max (iteration ?v2) maxit"
          "\<forall>k. Suc k < length h \<longrightarrow> h ! k \<noteq> (0, 0)"
          "case cluster_loop env clock thr msn maxit s' ?v2 of
             Completed s'' v' \<Rightarrow>
               iteration v' = iteration ?v2 + int (length h) \<and>
               (iteration v' < maxit \<longrightarrow> h \<noteq> [] \<and> last h = (0, 0))
           | TypeError s'' v' \<Rightarrow>
               iteration v' = iteration ?v2 + int (length h) + 1 \<and> (0, 0) \<notin> set h"
          by blast
        have nz: "(a, n) \<noteq> (0, 0)" using False by simp
        have k: "\<forall>k. Suc k < length ((a, n) # h) \<longrightarrow> ((a, n) # h) ! k \<noteq> (0, 0)"
        proof (intro allI impI)
          fix k assume "Suc k < length ((a, n) # h)"
          then show "((a, n) # h) ! k \<noteq> (0, 0)"
            using nz h(3) by (cases k) auto
        qed
        show ?thesis
          unfolding eq
          apply (intro exI [of _ "(a, n) # h"] conjI)
          subgoal using h(1) by simp
          subgoal using h(2) lt by simp
          subgoal by (rule k)
          subgoal using h(4) nz lt
            by (cases "cluster_loop env clock thr msn maxit s' ?v2") auto
          done
      qed
    qed
  qed
qed
text \<open>
  C9. A run of \<open>cluster_new_faces_loop\<close> starts at most \<open>max_iterations\<close> iterations
  (none when \<open>max_iterations\<close> is not positive). An iteration whose pass returns
  \<open>(0, 0)\<close> is the last one: the loop returns there; an iteration whose pass returns
  anything else is followed by the rest of the loop. So in the history of a run only the
  last entry can be \<open>(0, 0)\<close>, and a run that returns before the cap ends with \<open>(0, 0)\<close>.
\<close>

theorem cluster_new_faces_loop_iterations:
  "iteration (outcome_vars (cluster_new_faces_loop env clock thr msn maxit s)) \<le> max 0 maxit \<and>
   (\<forall>k < length (history (outcome_vars (cluster_new_faces_loop env clock thr msn maxit s))).
      history (outcome_vars (cluster_new_faces_loop env clock thr msn maxit s)) ! k = (0, 0) \<longrightarrow>
        Suc k = length (history (outcome_vars (cluster_new_faces_loop env clock thr msn maxit s))) \<and>
        (\<exists>s' v'. cluster_new_faces_loop env clock thr msn maxit s = Completed s' v')) \<and>
   (case cluster_new_faces_loop env clock thr msn maxit s of
      Completed s' v' \<Rightarrow>
        iteration v' = int (length (history v')) \<and>
        (iteration v' < maxit \<longrightarrow> history v' \<noteq> [] \<and> last (history v') = (0, 0))
    | TypeError s' v' \<Rightarrow> iteration v' = int (length (history v')) + 1) \<and>
   (\<forall>s0 v s'. iteration v < maxit \<longrightarrow>
      cluster_new_faces env (clock (iteration v + 1)) thr msn s0 = (s', Some (0, 0)) \<longrightarrow>
      cluster_loop env clock thr msn maxit s0 v =
        Completed s' (v\<lparr>iteration := iteration v + 1, history := history v @ [(0, 0)]\<rparr>)) \<and>
   (\<forall>s0 v s' a n. iteration v < maxit \<longrightarrow> (a, n) \<noteq> (0, 0) \<longrightarrow>
      cluster_new_faces env (clock (iteration v + 1)) thr msn s0 = (s', Some (a, n)) \<longrightarrow>
      cluster_loop env clock thr msn maxit s0 v =
        cluster_loop env clock thr msn maxit s'
          (v\<lparr>iteration := iteration v + 1,
             total_assigned := total_assigned v + a,
             total_new_people := total_new_people v + n,
             history := history v @ [(a, n)]\<rparr>))"
proof -
  let ?v0 = "\<lparr>total_assigned = 0, total_new_people = 0, iteration = 0, history = []\<rparr>"
  let ?r = "cluster_loop env clock thr msn maxit s ?v0"
  from cluster_loop_history [of env clock thr msn maxit s ?v0]
  obtain h where raw:
    "history (outcome_vars ?r) = history ?v0 @ h"
    "iteration (outcome_vars ?r) \<le> max (iteration ?v0) maxit"
    "\<forall>k. Suc k < length h \<longrightarrow> h ! k \<noteq> (0, 0)"
    "case ?r of
       Completed s' v' \<Rightarrow>
         iteration v' = iteration ?v0 + int (length h) \<and>
         (iteration v' < maxit \<longrightarrow> h \<noteq> [] \<and> last h = (0, 0))
     | TypeError s' v' \<Rightarrow> iteration v' = iteration ?v0 + int (length h) + 1 \<and> (0, 0) \<notin> set h"
    by blast
  have h: "history (outcome_vars ?r) = h"
    "iteration (outcome_vars ?r) \<le> max 0 maxit"
    "\<forall>k. Suc k < length h \<longrightarrow> h ! k \<noteq> (0, 0)"
    "case ?r of
       Completed s' v' \<Rightarrow>
         iteration v' = int (length h) \<and> (iteration v' < maxit \<longrightarrow> h \<noteq> [] \<and> last h = (0, 0))
     | TypeError s' v' \<Rightarrow> iteration v' = int (length h) + 1 \<and> (0, 0) \<notin> set h"
    using raw by (simp_all split: loop_outcome.splits)
  have last_only: "Suc k = length h \<and> (\<exists>s' v'. ?r = Completed s' v')"
    if "k < length h" "h ! k = (0, 0)" for k
  proof
    show "Suc k = length h"
      using that h(3) by (metis Suc_lessI)
    show "\<exists>s' v'. ?r = Completed s' v'"
      using that h(4) by (cases ?r) (auto simp: in_set_conv_nth)
  qed
  have shape: "case ?r of
      Completed s' v' \<Rightarrow>
        iteration v' = int (length (history v')) \<and>
        (iteration v' < maxit \<longrightarrow> history v' \<noteq> [] \<and> last (history v') = (0, 0))
    | TypeError s' v' \<Rightarrow> iteration v' = int (length (history v')) + 1"
    using h(1) h(4) by (cases ?r) auto
  have stop: "cluster_loop env clock thr msn maxit s0 v =
        Completed s' (v\<lparr>iteration := iteration v + 1, history := history v @ [(0, 0)]\<rparr>)"
    if "iteration v < maxit"
       "cluster_new_faces env (clock (iteration v + 1)) thr msn s0 = (s', Some (0, 0))"
    for s0 v s'
    using that by (subst cluster_loop.simps) (simp add: Let_def)
  have continue: "cluster_loop env clock thr msn maxit s0 v =
        cluster_loop env clock thr msn maxit s'
          (v\<lparr>iteration := iteration v + 1,
             total_assigned := total_assigned v + a,
             total_new_people := total_new_people v + n,
             history := history v @ [(a, n)]\<rparr>)"
    if "iteration v < maxit" "(a, n) \<noteq> (0, 0)"
       "cluster_new_faces env (clock (iteration v + 1)) thr msn s0 = (s', Some (a, n))"
    for s0 v s' a n
    using that by (subst cluster_loop.simps) (auto simp: Let_def)
  show ?thesis
    unfolding cluster_new_faces_loop_def
    using h(1) h(2) last_only shape stop continue by blast
qed
lemmas eval_defs = cluster_new_faces_def select_new_faces_def select_existing_data_def
  List.map_filter_def calculate_centroids_def add_existing_row_def match_faces_def match_face_def
  closest_person_def create_new_people_def update_face_person_def exact_env_def
  exact_cosine_similarity_def exact_mean_def dot_def mk_face_def mk_person_def Let_def

lemma store9_pass:
  "cluster_new_faces (exact_env ScanFaces all_noise) 5 (6 / 10) 30 store9 = (store9b, Some (1, 0))"
  by (simp add: eval_defs store9_def store9b_def)

lemma store9b_pass:
  "cluster_new_faces (exact_env ScanFaces all_noise) 5 (6 / 10) 30 store9b = (store9b, Some (0, 0))"
  by (simp add: eval_defs store9b_def)

theorem cluster_new_faces_loop_iterations_witness:
  "cluster_new_faces_loop (exact_env ScanFaces all_noise) (\<lambda>i. 5) (6 / 10) 30 10 store9 =
     Completed store9b
       \<lparr>total_assigned = 1, total_new_people = 0, iteration = 2, history = [(1, 0), (0, 0)]\<rparr> \<and>
   (2::int) \<le> max 0 10"
proof -
  let ?E = "exact_env ScanFaces all_noise"
  let ?v0 = "\<lparr>total_assigned = 0, total_new_people = 0, iteration = 0, history = []\<rparr>"
  let ?v1 = "\<lparr>total_assigned = 1, total_new_people = 0, iteration = 1, history = [(1, 0)]\<rparr>"
  note t = cluster_new_faces_loop_iterations [of ?E "\<lambda>i. 5" "6 / 10" 30 10 store9]
  note stop = t [THEN conjunct2, THEN conjunct2, THEN conjunct2, THEN conjunct1, rule_format]
  note continue = t [THEN conjunct2, THEN conjunct2, THEN conjunct2, THEN conjunct2, rule_format]
  have "cluster_loop ?E (\<lambda>i. 5) (6 / 10) 30 10 store9 ?v0 =
        cluster_loop ?E (\<lambda>i. 5) (6 / 10) 30 10 store9b ?v1"
    using continue [where v = ?v0, OF _ _ store9_pass] by simp
  moreover have "cluster_loop ?E (\<lambda>i. 5) (6 / 10) 30 10 store9b ?v1 =
        Completed store9b
          \<lparr>total_assigned = 1, total_new_people = 0, iteration = 2, history = [(1, 0), (0, 0)]\<rparr>"
    using stop [where v = ?v1, OF _ store9b_pass] by simp
  ultimately show ?thesis
    by (simp add: cluster_new_faces_loop_def)
qed

subsection \<open>Choosing the closest person\<close>

text \<open>The inner loop from any starting pair \<open>(best_person_id, best_similarity)\<close>.\<close>

lemma closest_fold_below:
  assumes "\<forall>(q, c) \<in> set cents. cosine_similarity env emb c \<le> thr \<or> cosine_similarity env emb c \<le> bs"
  shows "fold (\<lambda>(person_id, centroid) (best_person_id, best_similarity).
             let similarity = cosine_similarity env emb centroid
             in if similarity > best_similarity \<and> similarity > thr
                then (Some person_id, similarity)
                else (best_person_id, best_similarity)) cents (bp, bs) = (bp, bs)"
  using assms by (induction cents) (auto simp: Let_def)

lemma closest_fold_bound:
  assumes "\<forall>(q, c) \<in> set cents. cosine_similarity env emb c < b" and "bs < b"
  shows "snd (fold (\<lambda>(person_id, centroid) (best_person_id, best_similarity).
             let similarity = cosine_similarity env emb centroid
             in if similarity > best_similarity \<and> similarity > thr
                then (Some person_id, similarity)
                else (best_person_id, best_similarity)) cents (bp, bs)) < b"
  using assms by (induction cents arbitrary: bp bs) (auto simp: Let_def)

lemma closest_fold_result:
  "fold (\<lambda>(person_id, centroid) (best_person_id, best_similarity).
             let similarity = cosine_similarity env emb centroid
             in if similarity > best_similarity \<and> similarity > thr
                then (Some person_id, similarity)
                else (best_person_id, best_similarity)) cents (bp, bs) = (bp', bs') \<Longrightarrow>
   (bp' = bp \<and> bs' = bs \<or>
    (\<exists>(p, c) \<in> set cents. bp' = Some p \<and> bs' = cosine_similarity env emb c \<and> thr < bs' \<and> bs < bs')) \<and>
   (\<forall>(q, c) \<in> set cents. cosine_similarity env emb c \<le> thr \<or> cosine_similarity env emb c \<le> bs')"
proof (induction cents arbitrary: bp bs)
  case Nil
  then show ?case by simp
next
  case (Cons x cents)
  obtain q c where x: "x = (q, c)" by (cases x)
  let ?sim = "cosine_similarity env emb c"
  show ?case
  proof (cases "?sim > bs \<and> ?sim > thr")
    case True
    with Cons.prems x have
      "fold (\<lambda>(person_id, centroid) (best_person_id, best_similarity).
             let similarity = cosine_similarity env emb centroid
             in if similarity > best_similarity \<and> similarity > thr
                then (Some person_id, similarity)
                else (best_person_id, best_similarity)) cents (Some q, ?sim) = (bp', bs')"
      by (simp add: Let_def)
    from Cons.IH [OF this] True x show ?thesis
      by (auto simp: Let_def) 
  next
    case False
    with Cons.prems x have
      "fold (\<lambda>(person_id, centroid) (best_person_id, best_similarity).
             let similarity = cosine_similarity env emb centroid
             in if similarity > best_similarity \<and> similarity > thr
                then (Some person_id, similarity)
                else (best_person_id, best_similarity)) cents (bp, bs) = (bp', bs')"
      by (auto simp: Let_def)
    from Cons.IH [OF this] False x show ?thesis
      by (auto simp: Let_def)
  qed
qed

lemma closest_person_none:
  assumes "\<forall>(q, c) \<in> set cents. cosine_similarity env emb c \<le> thr"
  shows "closest_person env thr cents emb = (None, 0)"
  unfolding closest_person_def using assms
  by (intro closest_fold_below) auto

lemma closest_person_some:
  assumes "closest_person env thr cents emb = (Some p, b)"
  shows "(\<exists>c. (p, c) \<in> set cents \<and> b = cosine_similarity env emb c) \<and> thr < b \<and> 0 < b \<and>
         (\<forall>(q, c) \<in> set cents. cosine_similarity env emb c \<le> b)"
proof -
  from closest_fold_result [OF assms [unfolded closest_person_def]]
  have 1: "\<exists>(p', c) \<in> set cents. Some p = Some p' \<and> b = cosine_similarity env emb c \<and> thr < b \<and> 0 < b"
    and 2: "\<forall>(q, c) \<in> set cents. cosine_similarity env emb c \<le> thr \<or> cosine_similarity env emb c \<le> b"
    by auto
  from 1 have "thr < b" by auto
  with 1 2 show ?thesis by fastforce
qed

lemma closest_person_first:
  assumes "cents = pre @ (p, c) # post"
    and "\<forall>(q, c') \<in> set pre. cosine_similarity env emb c' < cosine_similarity env emb c"
    and "\<forall>(q, c') \<in> set post. cosine_similarity env emb c' \<le> cosine_similarity env emb c"
    and "thr < cosine_similarity env emb c" and "0 < cosine_similarity env emb c"
  shows "closest_person env thr cents emb = (Some p, cosine_similarity env emb c)"
proof -
  let ?step = "\<lambda>(person_id, centroid) (best_person_id, best_similarity).
             let similarity = cosine_similarity env emb centroid
             in if similarity > best_similarity \<and> similarity > thr
                then (Some person_id, similarity)
                else (best_person_id, best_similarity)"
  let ?m = "cosine_similarity env emb c"
  obtain bp1 bs1 where pre: "fold ?step pre (None, 0) = (bp1, bs1)"
    by (cases "fold ?step pre (None, 0)")
  have "snd (fold ?step pre (None, 0)) < ?m"
    using assms(2,5) by (rule closest_fold_bound)
  with pre have bs1: "bs1 < ?m" by simp
  have "fold ?step ((p, c) # post) (bp1, bs1) = fold ?step post (Some p, ?m)"
    using bs1 assms(4) by (simp add: Let_def)
  also have "\<dots> = (Some p, ?m)"
    using assms(3) by (intro closest_fold_below) auto
  finally show ?thesis
    unfolding closest_person_def assms(1) using pre by simp
qed

lemma closest_fold_first:
  "fold (\<lambda>(person_id, centroid) (best_person_id, best_similarity).
             let similarity = cosine_similarity env emb centroid
             in if similarity > best_similarity \<and> similarity > thr
                then (Some person_id, similarity)
                else (best_person_id, best_similarity)) cents (bp, bs) = (Some p, b) \<Longrightarrow>
   (bp = Some p \<and> bs = b \<and>
    (\<forall>x \<in> set cents. cosine_similarity env emb (snd x) \<le> thr \<or> cosine_similarity env emb (snd x) \<le> b)) \<or>
   (\<exists>pre c post. cents = pre @ (p, c) # post \<and> cosine_similarity env emb c = b \<and> thr < b \<and> bs < b \<and>
      (\<forall>x \<in> set pre. cosine_similarity env emb (snd x) < b) \<and>
      (\<forall>x \<in> set post. cosine_similarity env emb (snd x) \<le> b))"
proof (induction cents arbitrary: bp bs)
  case Nil
  then show ?case by simp
next
  case (Cons x cents)
  obtain q c0 where x: "x = (q, c0)" by (cases x)
  let ?sim = "cosine_similarity env emb c0"
  let ?step = "\<lambda>(person_id, centroid) (best_person_id, best_similarity).
             let similarity = cosine_similarity env emb centroid
             in if similarity > best_similarity \<and> similarity > thr
                then (Some person_id, similarity)
                else (best_person_id, best_similarity)"
  show ?case
  proof (cases "?sim > bs \<and> ?sim > thr")
    case True
    with Cons.prems x have "fold ?step cents (Some q, ?sim) = (Some p, b)"
      by (simp add: Let_def)
    from Cons.IH [OF this] show ?thesis
    proof
      assume a: "Some q = Some p \<and> ?sim = b \<and>
          (\<forall>x \<in> set cents. cosine_similarity env emb (snd x) \<le> thr \<or> cosine_similarity env emb (snd x) \<le> b)"
      then have post: "\<forall>x \<in> set cents. cosine_similarity env emb (snd x) \<le> b"
        using True by fastforce
      have "x # cents = [] @ (p, c0) # cents" using a x by simp
      moreover have "\<forall>x \<in> set []. cosine_similarity env emb (snd x) < b" by simp
      ultimately show ?thesis
        using a True post by blast
    next
      assume "\<exists>pre c post. cents = pre @ (p, c) # post \<and> cosine_similarity env emb c = b \<and> thr < b \<and>
          ?sim < b \<and> (\<forall>x \<in> set pre. cosine_similarity env emb (snd x) < b) \<and>
          (\<forall>x \<in> set post. cosine_similarity env emb (snd x) \<le> b)"
      then obtain pre c post where d: "cents = pre @ (p, c) # post" "cosine_similarity env emb c = b"
        "thr < b" "?sim < b" "\<forall>x \<in> set pre. cosine_similarity env emb (snd x) < b"
        "\<forall>x \<in> set post. cosine_similarity env emb (snd x) \<le> b"
        by blast
      have 1: "x # cents = (x # pre) @ (p, c) # post" using d(1) by simp
      have 2: "\<forall>y \<in> set (x # pre). cosine_similarity env emb (snd y) < b"
        using d(4,5) x by simp
      have 3: "bs < b" using True d(4) by simp
      from 1 2 3 d(2,3,6) show ?thesis by blast
    qed
  next
    case False
    with Cons.prems x have "fold ?step cents (bp, bs) = (Some p, b)"
      by (auto simp: Let_def)
    from Cons.IH [OF this] show ?thesis
    proof
      assume a: "bp = Some p \<and> bs = b \<and>
          (\<forall>x \<in> set cents. cosine_similarity env emb (snd x) \<le> thr \<or> cosine_similarity env emb (snd x) \<le> b)"
      have "?sim \<le> thr \<or> ?sim \<le> b" using False a by auto
      then have "\<forall>y \<in> set (x # cents). cosine_similarity env emb (snd y) \<le> thr \<or> cosine_similarity env emb (snd y) \<le> b"
        using a x by simp
      with a show ?thesis by blast
    next
      assume "\<exists>pre c post. cents = pre @ (p, c) # post \<and> cosine_similarity env emb c = b \<and> thr < b \<and>
          bs < b \<and> (\<forall>x \<in> set pre. cosine_similarity env emb (snd x) < b) \<and>
          (\<forall>x \<in> set post. cosine_similarity env emb (snd x) \<le> b)"
      then obtain pre c post where d: "cents = pre @ (p, c) # post" "cosine_similarity env emb c = b"
        "thr < b" "bs < b" "\<forall>x \<in> set pre. cosine_similarity env emb (snd x) < b"
        "\<forall>x \<in> set post. cosine_similarity env emb (snd x) \<le> b"
        by blast
      have "?sim < b" using False d(3,4) by auto
      then have 2: "\<forall>y \<in> set (x # pre). cosine_similarity env emb (snd y) < b"
        using d(5) x by simp
      have 1: "x # cents = (x # pre) @ (p, c) # post" using d(1) by simp
      from 1 2 d(2,3,4,6) show ?thesis by blast
    qed
  qed
qed

lemma closest_person_some_first:
  assumes "closest_person env thr cents emb = (Some p, b)"
  shows "\<exists>pre c post. cents = pre @ (p, c) # post \<and> cosine_similarity env emb c = b \<and>
           thr < b \<and> 0 < b \<and>
           (\<forall>(q, c') \<in> set pre. cosine_similarity env emb c' < cosine_similarity env emb c) \<and>
           (\<forall>(q, c') \<in> set post. cosine_similarity env emb c' \<le> cosine_similarity env emb c)"
proof -
  from closest_fold_first [OF assms [unfolded closest_person_def]]
  obtain pre c post where d: "cents = pre @ (p, c) # post" "cosine_similarity env emb c = b"
        "thr < b" "0 < b" "\<forall>x \<in> set pre. cosine_similarity env emb (snd x) < b"
        "\<forall>x \<in> set post. cosine_similarity env emb (snd x) \<le> b"
    by blast
  have "\<forall>(q, c') \<in> set pre. cosine_similarity env emb c' < cosine_similarity env emb c"
    using d(5) by (simp add: d(2) case_prod_beta)
  moreover have "\<forall>(q, c') \<in> set post. cosine_similarity env emb c' \<le> cosine_similarity env emb c"
    using d(6) by (simp add: d(2) case_prod_beta)
  ultimately show ?thesis using d(1-4) by blast
qed

subsection \<open>Matching one face\<close>

lemma match_face_unmatched_mono:
  "set (m_unmatched m) \<subseteq> set (m_unmatched (match_face env now thr fr m))"
  by (auto simp: match_face_def split: prod.splits option.splits)

lemma match_faces_unmatched_mono:
  "set (m_unmatched m) \<subseteq> set (m_unmatched (match_faces env now thr fs m))"
  unfolding match_faces_def
proof (induction fs arbitrary: m)
  case Nil
  show ?case by simp
next
  case (Cons f fs)
  show ?case
    using match_face_unmatched_mono [of m env now thr f] Cons.IH [of "match_face env now thr f m"]
    by auto
qed

lemma match_faces_append:
  "match_faces env now thr (xs @ ys) m = match_faces env now thr ys (match_faces env now thr xs m)"
  by (simp add: match_faces_def)

lemma match_faces_Cons:
  "match_faces env now thr (x # xs) m = match_faces env now thr xs (match_face env now thr x m)"
  by (simp add: match_faces_def)

lemma match_face_below:
  assumes "\<forall>(p, c) \<in> set (m_centroids m). cosine_similarity env emb c \<le> thr"
  shows "match_face env now thr (fid, emb) m = m\<lparr>m_unmatched := m_unmatched m @ [(fid, emb)]\<rparr>"
  using closest_person_none [OF assms] by (simp add: match_face_def)

lemma match_face_assigned:
  assumes "m_store (match_face env now thr (fid, emb) m) \<noteq> m_store m \<or>
           m_assigned_count (match_face env now thr (fid, emb) m) \<noteq> m_assigned_count m"
  shows "\<exists>(p, c) \<in> set (m_centroids m).
           thr < cosine_similarity env emb c \<and>
           (\<forall>(q, c') \<in> set (m_centroids m). cosine_similarity env emb c' \<le> cosine_similarity env emb c) \<and>
           m_store (match_face env now thr (fid, emb) m) = update_face_person now p fid (m_store m)"
proof -
  obtain bp b where cp: "closest_person env thr (m_centroids m) emb = (bp, b)"
    by (cases "closest_person env thr (m_centroids m) emb")
  from assms cp obtain p where p: "bp = Some p" "p \<noteq> 0"
    by (cases bp) (auto simp: match_face_def split: if_splits)
  from closest_person_some [OF cp [unfolded p(1)]] obtain c where
    c: "(p, c) \<in> set (m_centroids m)" "b = cosine_similarity env emb c" "thr < b"
       "\<forall>(q, c') \<in> set (m_centroids m). cosine_similarity env emb c' \<le> b"
    by blast
  have "m_store (match_face env now thr (fid, emb) m) = update_face_person now p fid (m_store m)"
    using cp p by (simp add: match_face_def)
  with c show ?thesis by blast
qed

text \<open>
  C3. When a face is matched against the running centroids and its greatest similarity
  to them is at most \<open>similarity_threshold\<close> (equal to it or below), the face is not assigned:
  no row is updated, the count and the centroids stay, and the face joins the unmatched
  faces. If the turn does assign the face, then its greatest similarity is strictly above
  the threshold and is the similarity to the person it goes to. In the whole of phase 1, a
  face that meets centroids none of which exceeds the threshold ends among the unmatched.
\<close>

theorem match_face_threshold:
  "(m_centroids m \<noteq> [] \<and>
    Max ((\<lambda>(p, c). cosine_similarity env emb c) ` set (m_centroids m)) \<le> thr \<longrightarrow>
      match_face env now thr (fid, emb) m = m\<lparr>m_unmatched := m_unmatched m @ [(fid, emb)]\<rparr>) \<and>
   (m_store (match_face env now thr (fid, emb) m) \<noteq> m_store m \<or>
    m_assigned_count (match_face env now thr (fid, emb) m) \<noteq> m_assigned_count m \<longrightarrow>
      thr < Max ((\<lambda>(p, c). cosine_similarity env emb c) ` set (m_centroids m)) \<and>
      (\<exists>(p, c) \<in> set (m_centroids m).
         cosine_similarity env emb c = Max ((\<lambda>(p, c). cosine_similarity env emb c) ` set (m_centroids m)) \<and>
         m_store (match_face env now thr (fid, emb) m) = update_face_person now p fid (m_store m))) \<and>
   (\<forall>pre post m0.
      m_centroids (match_faces env now thr pre m0) \<noteq> [] \<and>
      Max ((\<lambda>(p, c). cosine_similarity env emb c) ` set (m_centroids (match_faces env now thr pre m0))) \<le> thr \<longrightarrow>
        (fid, emb) \<in> set (m_unmatched (match_faces env now thr (pre @ (fid, emb) # post) m0)) \<and>
        m_store (match_faces env now thr (pre @ [(fid, emb)]) m0) = m_store (match_faces env now thr pre m0) \<and>
        m_assigned_count (match_faces env now thr (pre @ [(fid, emb)]) m0) =
          m_assigned_count (match_faces env now thr pre m0))"
proof -
  have below: "\<forall>(p, c) \<in> set (m_centroids m'). cosine_similarity env emb c \<le> thr"
    if "m_centroids m' \<noteq> []"
       "Max ((\<lambda>(p, c). cosine_similarity env emb c) ` set (m_centroids m')) \<le> thr" for m'
    using that by (auto simp: Max_le_iff)
  have 1: "match_face env now thr (fid, emb) m = m\<lparr>m_unmatched := m_unmatched m @ [(fid, emb)]\<rparr>"
    if "m_centroids m \<noteq> []"
       "Max ((\<lambda>(p, c). cosine_similarity env emb c) ` set (m_centroids m)) \<le> thr"
    using below [OF that] by (rule match_face_below)
  have 2: "thr < Max ((\<lambda>(p, c). cosine_similarity env emb c) ` set (m_centroids m)) \<and>
      (\<exists>(p, c) \<in> set (m_centroids m).
         cosine_similarity env emb c = Max ((\<lambda>(p, c). cosine_similarity env emb c) ` set (m_centroids m)) \<and>
         m_store (match_face env now thr (fid, emb) m) = update_face_person now p fid (m_store m))"
    if a: "m_store (match_face env now thr (fid, emb) m) \<noteq> m_store m \<or>
        m_assigned_count (match_face env now thr (fid, emb) m) \<noteq> m_assigned_count m"
  proof -
    from match_face_assigned [OF a] obtain p c where pc:
      "(p, c) \<in> set (m_centroids m)" "thr < cosine_similarity env emb c"
      "\<forall>(q, c') \<in> set (m_centroids m). cosine_similarity env emb c' \<le> cosine_similarity env emb c"
      "m_store (match_face env now thr (fid, emb) m) = update_face_person now p fid (m_store m)"
      by blast
    have "Max ((\<lambda>(p, c). cosine_similarity env emb c) ` set (m_centroids m)) = cosine_similarity env emb c"
      using pc(1,3) by (intro Max_eqI) force+
    with pc show ?thesis by force
  qed
  have 3: "(fid, emb) \<in> set (m_unmatched (match_faces env now thr (pre @ (fid, emb) # post) m0)) \<and>
        m_store (match_faces env now thr (pre @ [(fid, emb)]) m0) = m_store (match_faces env now thr pre m0) \<and>
        m_assigned_count (match_faces env now thr (pre @ [(fid, emb)]) m0) =
          m_assigned_count (match_faces env now thr pre m0)"
    if "m_centroids (match_faces env now thr pre m0) \<noteq> []"
      "Max ((\<lambda>(p, c). cosine_similarity env emb c) ` set (m_centroids (match_faces env now thr pre m0))) \<le> thr"
    for pre post m0
  proof -
    let ?m1 = "match_faces env now thr pre m0"
    have step: "match_face env now thr (fid, emb) ?m1 = ?m1\<lparr>m_unmatched := m_unmatched ?m1 @ [(fid, emb)]\<rparr>"
      using below [OF that] by (rule match_face_below)
    have "(fid, emb) \<in> set (m_unmatched (match_face env now thr (fid, emb) ?m1))"
      by (simp add: step)
    then have "(fid, emb) \<in> set (m_unmatched (match_faces env now thr post (match_face env now thr (fid, emb) ?m1)))"
      using match_faces_unmatched_mono by blast
    then show ?thesis
      by (simp add: match_faces_append match_faces_Cons step) (simp add: match_faces_def)
  qed
  show ?thesis
    using 1 2 3 by blast
qed
theorem match_face_threshold_witness:
  "Max ((\<lambda>(p, c). cosine_similarity (exact_env ScanFaces all_noise) [1, 0] c) ` set (m_centroids matching9)) = 1 \<and>
   match_face (exact_env ScanFaces all_noise) 5 1 (2, [1, 0]) matching9 =
     matching9\<lparr>m_unmatched := [(2, [1, 0])]\<rparr> \<and>
   m_store (match_face (exact_env ScanFaces all_noise) 5 (6 / 10) (2, [1, 0]) matching9) =
     update_face_person 5 1 2 store9 \<and>
   (2, [1, 0]) \<in> set (m_unmatched (match_faces (exact_env ScanFaces all_noise) 5 1 [(2, [1, 0]), (3, [0, 1])] matching9))"
proof -
  let ?E = "exact_env ScanFaces all_noise"
  have mx: "Max ((\<lambda>(p, c). cosine_similarity ?E [1, 0] c) ` set (m_centroids matching9)) = 1"
    by (simp add: matching9_def exact_env_def exact_cosine_similarity_def dot_def)
  have ne: "m_centroids matching9 \<noteq> []"
    by (simp add: matching9_def)
  note t1 = match_face_threshold [of matching9 ?E "[1, 0]" 1 5 2]
  note t2 = match_face_threshold [of matching9 ?E "[1, 0]" "6 / 10" 5 2]
  have a: "match_face ?E 5 1 (2, [1, 0]) matching9 = matching9\<lparr>m_unmatched := [(2, [1, 0])]\<rparr>"
    using t1 [THEN conjunct1] ne mx by (simp add: matching9_def)
  have changed: "m_assigned_count (match_face ?E 5 (6 / 10) (2, [1, 0]) matching9) \<noteq> m_assigned_count matching9"
    by (simp add: match_face_def closest_person_def matching9_def exact_env_def
        exact_cosine_similarity_def dot_def Let_def)
  have b: "m_store (match_face ?E 5 (6 / 10) (2, [1, 0]) matching9) = update_face_person 5 1 2 store9"
    using t2 [THEN conjunct2, THEN conjunct1] changed by (auto simp: matching9_def)
  have pre: "match_faces ?E 5 1 [] matching9 = matching9"
    by (simp add: match_faces_def)
  have c: "(2, [1, 0]) \<in> set (m_unmatched (match_faces ?E 5 1 [(2, [1, 0]), (3, [0, 1])] matching9))"
    using t1 [THEN conjunct2, THEN conjunct2, rule_format, of "[]" matching9 "[(3, [0, 1])]"] ne mx
    by (simp add: pre)
  show ?thesis using mx a b c by blast
qed

text \<open>
  The comparison takes the threshold as \<open>float_threshold env similarity_threshold\<close>. A
  similarity is a \<open>float32\<close> and the conversion rounds to the nearest \<open>float32\<close>, so a
  similarity that is at most the threshold as written is at most the converted one. For
  a conversion with this property the boundary is that of the threshold as written.
\<close>

lemma match_face_written_threshold:
  assumes "\<forall>(p, c) \<in> set (m_centroids m).
             cosine_similarity env emb c \<le> similarity_threshold \<longrightarrow>
             cosine_similarity env emb c \<le> float_threshold env similarity_threshold"
  shows "((\<forall>(p, c) \<in> set (m_centroids m). cosine_similarity env emb c \<le> similarity_threshold) \<longrightarrow>
            match_face env now (float_threshold env similarity_threshold) (fid, emb) m =
              m\<lparr>m_unmatched := m_unmatched m @ [(fid, emb)]\<rparr>) \<and>
         (m_assigned_count (match_face env now (float_threshold env similarity_threshold) (fid, emb) m) \<noteq>
            m_assigned_count m \<longrightarrow>
            (\<exists>(p, c) \<in> set (m_centroids m).
               similarity_threshold < cosine_similarity env emb c \<and>
               m_store (match_face env now (float_threshold env similarity_threshold) (fid, emb) m) =
                 update_face_person now p fid (m_store m)))"
proof (intro conjI impI)
  assume b: "\<forall>(p, c) \<in> set (m_centroids m). cosine_similarity env emb c \<le> similarity_threshold"
  have "\<forall>(p, c) \<in> set (m_centroids m).
          cosine_similarity env emb c \<le> float_threshold env similarity_threshold"
  proof
    fix x assume x: "x \<in> set (m_centroids m)"
    from bspec [OF b x] bspec [OF assms x]
    show "case x of (p, c) \<Rightarrow> cosine_similarity env emb c \<le> float_threshold env similarity_threshold"
      by (simp add: case_prod_beta)
  qed
  then show "match_face env now (float_threshold env similarity_threshold) (fid, emb) m =
              m\<lparr>m_unmatched := m_unmatched m @ [(fid, emb)]\<rparr>"
    by (rule match_face_below)
next
  assume "m_assigned_count (match_face env now (float_threshold env similarity_threshold) (fid, emb) m) \<noteq>
            m_assigned_count m"
  then have "m_store (match_face env now (float_threshold env similarity_threshold) (fid, emb) m) \<noteq> m_store m \<or>
      m_assigned_count (match_face env now (float_threshold env similarity_threshold) (fid, emb) m) \<noteq>
        m_assigned_count m"
    by simp
  from match_face_assigned [OF this] obtain x where x: "x \<in> set (m_centroids m)"
    and gt: "float_threshold env similarity_threshold < cosine_similarity env emb (snd x)"
    and st: "m_store (match_face env now (float_threshold env similarity_threshold) (fid, emb) m) =
               update_face_person now (fst x) fid (m_store m)"
    by (auto simp: case_prod_beta)
  from bspec [OF assms x] gt have "similarity_threshold < cosine_similarity env emb (snd x)"
    by (simp add: case_prod_beta not_le [symmetric])
  with x st show "\<exists>(p, c) \<in> set (m_centroids m).
               similarity_threshold < cosine_similarity env emb c \<and>
               m_store (match_face env now (float_threshold env similarity_threshold) (fid, emb) m) =
                 update_face_person now p fid (m_store m)"
    by (auto simp: case_prod_beta)
qed

subsection \<open>Equal similarities\<close>

lemma remdups_snoc:
  "remdups (xs @ [k]) = filter (\<lambda>x. x \<noteq> k) (remdups xs) @ [k]"
  by (induction xs) auto

lemma first_seen_Cons:
  "rev (remdups (rev (k # ks))) = k # filter (\<lambda>x. x \<noteq> k) (rev (remdups (rev ks)))"
  by (simp add: remdups_snoc rev_filter)

lemma add_existing_row_keys:
  "map fst (add_existing_row (k, nm, e) d) =
     map fst d @ (if k \<in> fst ` set d then [] else [k])"
  by (auto simp: add_existing_row_def Let_def case_prod_beta comp_def)

lemma fold_add_existing_row_keys:
  "map fst (fold add_existing_row rows d) =
     map fst d @ filter (\<lambda>k. k \<notin> fst ` set d) (rev (remdups (rev (map fst rows))))"
proof (induction rows arbitrary: d)
  case Nil
  show ?case by simp
next
  case (Cons r rows)
  obtain k nm e where r: "r = (k, nm, e)" by (cases r)
  let ?d = "add_existing_row (k, nm, e) d"
  have keys: "fst ` set ?d = fst ` set d \<union> {k}"
    using add_existing_row_keys [of k nm e d, THEN arg_cong, of set] by auto
  show ?case
  proof (cases "k \<in> fst ` set d")
    case True
    have "filter (\<lambda>k'. k' \<notin> fst ` set d) (filter (\<lambda>x. x \<noteq> k) (rev (remdups (rev (map fst rows))))) =
          filter (\<lambda>k'. k' \<notin> fst ` set d) (rev (remdups (rev (map fst rows))))"
      using True by (auto intro: filter_cong)
    then show ?thesis
      using True Cons.IH [of ?d] keys
      by (simp add: r first_seen_Cons add_existing_row_keys insert_absorb del: rev.simps)
  next
    case False
    have "filter (\<lambda>k'. k' \<notin> fst ` set d \<and> k' \<noteq> k) (rev (remdups (rev (map fst rows)))) =
          filter (\<lambda>k'. k' \<notin> fst ` set d) (filter (\<lambda>x. x \<noteq> k) (rev (remdups (rev (map fst rows)))))"
      by (auto intro: filter_cong)
    then show ?thesis
      using False Cons.IH [of ?d] keys
      by (simp add: r first_seen_Cons add_existing_row_keys del: rev.simps)
  qed
qed

lemma calculate_centroids_keys:
  "map fst (calculate_centroids env rows) = rev (remdups (rev (map fst rows)))"
  using fold_add_existing_row_keys [of rows "[]"]
  by (simp add: calculate_centroids_def case_prod_beta comp_def)
lemma match_face_first_max:
  assumes "m_centroids m = pre @ (p, c) # post"
    and "\<forall>(q, c') \<in> set pre. cosine_similarity env emb c' < cosine_similarity env emb c"
    and "\<forall>(q, c') \<in> set post. cosine_similarity env emb c' \<le> cosine_similarity env emb c"
    and "thr < cosine_similarity env emb c" and "0 < cosine_similarity env emb c" and "p \<noteq> 0"
  shows "match_face env now thr (fid, emb) m =
           m\<lparr>m_store := update_face_person now p fid (m_store m),
             m_assigned_count := m_assigned_count m + 1,
             m_centroids := map (\<lambda>(k, old_centroid).
                                   if k = p then (k, np_halve env (np_add env old_centroid emb))
                                   else (k, old_centroid)) (m_centroids m)\<rparr>"
  using closest_person_first [OF assms(1-5)] assms(6)
  by (simp add: match_face_def)

lemma match_face_assigned_first:
  assumes "m_store (match_face env now thr (fid, emb) m) \<noteq> m_store m \<or>
           m_assigned_count (match_face env now thr (fid, emb) m) \<noteq> m_assigned_count m"
  shows "\<exists>pre p c post.
           m_centroids m = pre @ (p, c) # post \<and>
           (\<forall>(q, c') \<in> set pre. cosine_similarity env emb c' < cosine_similarity env emb c) \<and>
           (\<forall>(q, c') \<in> set post. cosine_similarity env emb c' \<le> cosine_similarity env emb c) \<and>
           thr < cosine_similarity env emb c \<and> 0 < cosine_similarity env emb c \<and> p \<noteq> 0 \<and>
           match_face env now thr (fid, emb) m =
             m\<lparr>m_store := update_face_person now p fid (m_store m),
               m_assigned_count := m_assigned_count m + 1,
               m_centroids := map (\<lambda>(k, old_centroid).
                                     if k = p then (k, np_halve env (np_add env old_centroid emb))
                                     else (k, old_centroid)) (m_centroids m)\<rparr>"
proof -
  obtain bp b where cp: "closest_person env thr (m_centroids m) emb = (bp, b)"
    by (cases "closest_person env thr (m_centroids m) emb")
  from assms cp obtain p where p: "bp = Some p" "p \<noteq> 0"
    by (cases bp) (auto simp: match_face_def split: if_splits)
  from closest_person_some_first [OF cp [unfolded p(1)]] obtain pre c post where
    d: "m_centroids m = pre @ (p, c) # post" "cosine_similarity env emb c = b" "thr < b" "0 < b"
       "\<forall>(q, c') \<in> set pre. cosine_similarity env emb c' < cosine_similarity env emb c"
       "\<forall>(q, c') \<in> set post. cosine_similarity env emb c' \<le> cosine_similarity env emb c"
    by blast
  have t: "thr < cosine_similarity env emb c" "0 < cosine_similarity env emb c"
    using d(2,3,4) by simp_all
  have "match_face env now thr (fid, emb) m =
             m\<lparr>m_store := update_face_person now p fid (m_store m),
               m_assigned_count := m_assigned_count m + 1,
               m_centroids := map (\<lambda>(k, old_centroid).
                                     if k = p then (k, np_halve env (np_add env old_centroid emb))
                                     else (k, old_centroid)) (m_centroids m)\<rparr>"
    using d(1,5,6) t p(2) by (rule match_face_first_max)
  with d(1,5,6) t p(2) show ?thesis by blast
qed

text \<open>
  C8 (as amended). The centroid dictionary lists the persons in the order in which they
  first appear in the rows of the join, which the query leaves to the database engine.
  The threshold is \<open>similarity_threshold\<close> as the comparison with the \<open>float32\<close> similarity
  takes it, \<open>float_threshold env similarity_threshold\<close>. Whenever a face is assigned, it goes
  to the first person in dictionary order whose centroid attains the greatest similarity
  (every earlier centroid is strictly less similar), that similarity exceeds both the
  threshold so taken and 0, and the id of the person is not 0. Conversely, when the greatest
  similarity exceeds both the threshold so taken and 0, the face is assigned to the first
  person in dictionary order attaining it, provided the id of that person is not 0.
\<close>

theorem match_face_tie_break:
  "map fst (calculate_centroids env rows) = rev (remdups (rev (map fst rows))) \<and>
   (m_store (match_face env now (float_threshold env similarity_threshold) (fid, emb) m) \<noteq> m_store m \<or>
    m_assigned_count (match_face env now (float_threshold env similarity_threshold) (fid, emb) m) \<noteq>
      m_assigned_count m \<longrightarrow>
      (\<exists>pre p c post.
         m_centroids m = pre @ (p, c) # post \<and>
         (\<forall>(q, c') \<in> set pre. cosine_similarity env emb c' < cosine_similarity env emb c) \<and>
         (\<forall>(q, c') \<in> set post. cosine_similarity env emb c' \<le> cosine_similarity env emb c) \<and>
         float_threshold env similarity_threshold < cosine_similarity env emb c \<and>
         0 < cosine_similarity env emb c \<and> p \<noteq> 0 \<and>
         match_face env now (float_threshold env similarity_threshold) (fid, emb) m =
           m\<lparr>m_store := update_face_person now p fid (m_store m),
             m_assigned_count := m_assigned_count m + 1,
             m_centroids := map (\<lambda>(k, old_centroid).
                                   if k = p then (k, np_halve env (np_add env old_centroid emb))
                                   else (k, old_centroid)) (m_centroids m)\<rparr>)) \<and>
   (m_centroids m = pre @ (p, c) # post \<and>
    (\<forall>(q, c') \<in> set pre. cosine_similarity env emb c' < cosine_similarity env emb c) \<and>
    (\<forall>(q, c') \<in> set post. cosine_similarity env emb c' \<le> cosine_similarity env emb c) \<and>
    float_threshold env similarity_threshold < cosine_similarity env emb c \<and>
    0 < cosine_similarity env emb c \<and> p \<noteq> 0 \<longrightarrow>
      match_face env now (float_threshold env similarity_threshold) (fid, emb) m =
        m\<lparr>m_store := update_face_person now p fid (m_store m),
          m_assigned_count := m_assigned_count m + 1,
          m_centroids := map (\<lambda>(k, old_centroid).
                                if k = p then (k, np_halve env (np_add env old_centroid emb))
                                else (k, old_centroid)) (m_centroids m)\<rparr>)"
proof (intro conjI impI)
  show "map fst (calculate_centroids env rows) = rev (remdups (rev (map fst rows)))"
    by (rule calculate_centroids_keys)
next
  assume "m_store (match_face env now (float_threshold env similarity_threshold) (fid, emb) m) \<noteq> m_store m \<or>
    m_assigned_count (match_face env now (float_threshold env similarity_threshold) (fid, emb) m) \<noteq>
      m_assigned_count m"
  then show "\<exists>pre p c post.
         m_centroids m = pre @ (p, c) # post \<and>
         (\<forall>(q, c') \<in> set pre. cosine_similarity env emb c' < cosine_similarity env emb c) \<and>
         (\<forall>(q, c') \<in> set post. cosine_similarity env emb c' \<le> cosine_similarity env emb c) \<and>
         float_threshold env similarity_threshold < cosine_similarity env emb c \<and>
         0 < cosine_similarity env emb c \<and> p \<noteq> 0 \<and>
         match_face env now (float_threshold env similarity_threshold) (fid, emb) m =
           m\<lparr>m_store := update_face_person now p fid (m_store m),
             m_assigned_count := m_assigned_count m + 1,
             m_centroids := map (\<lambda>(k, old_centroid).
                                   if k = p then (k, np_halve env (np_add env old_centroid emb))
                                   else (k, old_centroid)) (m_centroids m)\<rparr>"
    by (rule match_face_assigned_first)
next
  assume a: "m_centroids m = pre @ (p, c) # post \<and>
    (\<forall>(q, c') \<in> set pre. cosine_similarity env emb c' < cosine_similarity env emb c) \<and>
    (\<forall>(q, c') \<in> set post. cosine_similarity env emb c' \<le> cosine_similarity env emb c) \<and>
    float_threshold env similarity_threshold < cosine_similarity env emb c \<and>
    0 < cosine_similarity env emb c \<and> p \<noteq> 0"
  show "match_face env now (float_threshold env similarity_threshold) (fid, emb) m =
        m\<lparr>m_store := update_face_person now p fid (m_store m),
          m_assigned_count := m_assigned_count m + 1,
          m_centroids := map (\<lambda>(k, old_centroid).
                                if k = p then (k, np_halve env (np_add env old_centroid emb))
                                else (k, old_centroid)) (m_centroids m)\<rparr>"
    using a by (intro match_face_first_max) blast+
qed

theorem match_face_tie_break_witness:
  "map fst (calculate_centroids (exact_env ScanFaces all_noise)
              (select_existing_data ScanFaces store8)) = [2, 1] \<and>
   float_threshold (exact_env ScanFaces all_noise) (6 / 10) = 6 / 10 \<and>
   cosine_similarity (exact_env ScanFaces all_noise) [1, 0] [1, 0] = 1 \<and>
   match_face (exact_env ScanFaces all_noise) 5 (float_threshold (exact_env ScanFaces all_noise) (6 / 10))
       (3, [1, 0])
       \<lparr>m_store = store8, m_centroids = [(2, [1, 0]), (1, [1, 0])],
        m_assigned_count = 0, m_unmatched = []\<rparr> =
     \<lparr>m_store = update_face_person 5 2 3 store8, m_centroids = [(2, [1, 0]), (1, [1, 0])],
      m_assigned_count = 1, m_unmatched = []\<rparr> \<and>
   m_assigned_count
     (match_face (exact_env ScanFaces all_noise) 5 (float_threshold (exact_env ScanFaces all_noise) (6 / 10))
        (3, [1, 0])
        \<lparr>m_store = store8, m_centroids = [(2, [1, 0]), (1, [1, 0])],
         m_assigned_count = 0, m_unmatched = []\<rparr>) = 0 + 1"
proof -
  let ?E = "exact_env ScanFaces all_noise"
  let ?m = "\<lparr>m_store = store8, m_centroids = [(2, [1, 0]), (1, [1, 0])],
        m_assigned_count = 0, m_unmatched = []\<rparr>"
  note t = match_face_tie_break [of ?E "select_existing_data ScanFaces store8" 5 "6 / 10" 3 "[1, 0]" ?m
      "[]" 2 "[1, 0]" "[(1, [1, 0])]"]
  have rows: "rev (remdups (rev (map fst (select_existing_data ScanFaces store8)))) = [2, 1]"
    by (simp add: select_existing_data_def store8_def mk_face_def mk_person_def)
  have thr: "float_threshold ?E (6 / 10) = 6 / 10"
    by (simp add: exact_env_def)
  have sim: "cosine_similarity ?E [1, 0] [1, 0] = 1"
    by (simp add: exact_env_def exact_cosine_similarity_def dot_def)
  have upd: "np_halve ?E (np_add ?E [1, 0] [1, 0]) = [1, 0]"
    by (simp add: exact_env_def)
  have 1: "map fst (calculate_centroids ?E (select_existing_data ScanFaces store8)) = [2, 1]"
    using t [THEN conjunct1] rows by simp
  have 2: "match_face ?E 5 (float_threshold ?E (6 / 10)) (3, [1, 0]) ?m =
     \<lparr>m_store = update_face_person 5 2 3 store8, m_centroids = [(2, [1, 0]), (1, [1, 0])],
      m_assigned_count = 1, m_unmatched = []\<rparr>"
    using t [THEN conjunct2, THEN conjunct2] sim upd thr by simp
  have changed: "m_assigned_count (match_face ?E 5 (float_threshold ?E (6 / 10)) (3, [1, 0]) ?m) \<noteq>
      m_assigned_count ?m"
    by (simp add: match_face_def closest_person_def exact_env_def
        exact_cosine_similarity_def dot_def Let_def)
  with t [THEN conjunct2, THEN conjunct1] obtain pre' p' c' post' where
    "match_face ?E 5 (float_threshold ?E (6 / 10)) (3, [1, 0]) ?m =
       ?m\<lparr>m_store := update_face_person 5 p' 3 (m_store ?m),
          m_assigned_count := m_assigned_count ?m + 1,
          m_centroids := map (\<lambda>(k, old_centroid).
                                if k = p' then (k, np_halve ?E (np_add ?E old_centroid [1, 0]))
                                else (k, old_centroid)) (m_centroids ?m)\<rparr>"
    by blast
  then have 3: "m_assigned_count (match_face ?E 5 (float_threshold ?E (6 / 10)) (3, [1, 0]) ?m) = 0 + 1"
    by simp
  from 1 thr sim 2 3 show ?thesis
    by (intro conjI)
qed

text \<open>
  In \<open>store8\<close> persons 1 and 2 have the same centroid, the new face 3 has similarity 1 to
  both, and the join read by scanning \<open>faces\<close> meets person 2 first: face 3 goes to
  person 2, not to person 1. In \<open>store8z\<close> with threshold \<open>-1/2\<close> the greatest similarity
  of face 3 is 0, above the threshold and attained by both persons, and face 3 is not
  assigned at all.
\<close>

theorem match_face_tie_break_counterexample:
  "exact_cosine_similarity [1, 0] [1, 0] = 1 \<and>
   calculate_centroids (exact_env ScanFaces all_noise) (select_existing_data ScanFaces store8) =
     [(2, [1, 0]), (1, [1, 0])] \<and>
   fst (cluster_new_faces (exact_env ScanFaces all_noise) 5 (6 / 10) 30 store8) =
     update_face_person 5 2 3 store8 \<and>
   exact_cosine_similarity [0, 1] [1, 0] = 0 \<and>
   cluster_new_faces (exact_env ScanFaces all_noise) 5 (- 1 / 2) 30 store8z = (store8z, Some (0, 0))"
  by (simp add: eval_defs store8_def store8z_def)

subsection \<open>Labelling a person with a name already in use\<close>

lemma find_filter_Cons:
  "filter P xs = e # rest \<Longrightarrow> find P xs = Some e"
  by (induction xs) (auto split: if_splits)

lemma find_id_Some:
  "person_id \<in> p_id ` set ps \<Longrightarrow> \<exists>cur. find (\<lambda>p. p_id p = person_id) ps = Some cur"
  by (cases "find (\<lambda>p. p_id p = person_id) ps") (auto simp: find_None_iff)

lemma filter_filter_conj:
  "filter P (filter Q xs) = filter (\<lambda>x. P x \<and> Q x) xs"
  by (induction xs) auto

lemma length_filter_reassign:
  assumes "a \<noteq> b"
  shows "length (filter (\<lambda>f. f_person_id f = Some b)
                   (map (\<lambda>f. if f_person_id f = Some a then f\<lparr>f_person_id := Some b\<rparr> else f) fs)) =
         length (filter (\<lambda>f. f_person_id f = Some b) fs) +
         length (filter (\<lambda>f. f_person_id f = Some a) fs)"
  using assms by (induction fs) auto

text \<open>
  C4 (as amended). When \<open>person_id\<close> exists and the other persons bearing exactly \<open>name\<close>
  are \<open>e\<close> followed by \<open>rest\<close> in table order, \<open>label_person\<close> deletes the row of
  \<open>person_id\<close> and no other, gives every face of \<open>person_id\<close> to \<open>e\<close> (which then has
  its old faces and those), and the persons bearing \<open>name\<close> afterwards are \<open>e\<close> and
  \<open>rest\<close>: exactly one when exactly one other person bore the name.
\<close>

theorem label_person_merge:
  assumes "person_id \<in> p_id ` set (persons s)"
    and "filter (\<lambda>p. p_name p = Some name \<and> p_id p \<noteq> person_id) (persons s) = e # rest"
  shows
    "persons (label_person person_id name s) = filter (\<lambda>p. p_id p \<noteq> person_id) (persons s) \<and>
     person_id \<notin> p_id ` set (persons (label_person person_id name s)) \<and>
     faces (label_person person_id name s) =
       map (\<lambda>f. if f_person_id f = Some person_id then f\<lparr>f_person_id := Some (p_id e)\<rparr> else f)
           (faces s) \<and>
     (\<forall>f \<in> set (faces (label_person person_id name s)). f_person_id f \<noteq> Some person_id) \<and>
     length (filter (\<lambda>f. f_person_id f = Some (p_id e)) (faces (label_person person_id name s))) =
       length (filter (\<lambda>f. f_person_id f = Some (p_id e)) (faces s)) +
       length (filter (\<lambda>f. f_person_id f = Some person_id) (faces s)) \<and>
     filter (\<lambda>p. p_name p = Some name) (persons (label_person person_id name s)) = e # rest \<and>
     (rest = [] \<longrightarrow>
        length (filter (\<lambda>p. p_name p = Some name) (persons (label_person person_id name s))) = 1)"
proof -
  from find_id_Some [OF assms(1)] obtain cur where
    cur: "find (\<lambda>p. p_id p = person_id) (persons s) = Some cur" by blast
  have ex: "find (\<lambda>p. p_name p = Some name \<and> p_id p \<noteq> person_id) (persons s) = Some e"
    using assms(2) by (rule find_filter_Cons)
  have "e \<in> set (filter (\<lambda>p. p_name p = Some name \<and> p_id p \<noteq> person_id) (persons s))"
    by (simp add: assms(2))
  then have ne: "person_id \<noteq> p_id e" by auto
  have P: "persons (label_person person_id name s) = filter (\<lambda>p. p_id p \<noteq> person_id) (persons s)"
    using cur ex by (simp add: label_person_def)
  have F: "faces (label_person person_id name s) =
       map (\<lambda>f. if f_person_id f = Some person_id then f\<lparr>f_person_id := Some (p_id e)\<rparr> else f)
           (faces s)"
    using cur ex by (simp add: label_person_def)
  have gone: "person_id \<notin> p_id ` set (persons (label_person person_id name s))"
    by (auto simp: P)
  have nofaces: "\<forall>f \<in> set (faces (label_person person_id name s)). f_person_id f \<noteq> Some person_id"
    using ne by (auto simp: F)
  have count: "length (filter (\<lambda>f. f_person_id f = Some (p_id e)) (faces (label_person person_id name s))) =
       length (filter (\<lambda>f. f_person_id f = Some (p_id e)) (faces s)) +
       length (filter (\<lambda>f. f_person_id f = Some person_id) (faces s))"
    unfolding F using ne by (rule length_filter_reassign)
  have named: "filter (\<lambda>p. p_name p = Some name) (persons (label_person person_id name s)) = e # rest"
    unfolding P filter_filter_conj by (rule assms(2))
  have one: "rest = [] \<longrightarrow>
        length (filter (\<lambda>p. p_name p = Some name) (persons (label_person person_id name s))) = 1"
    unfolding named by simp
  show ?thesis
    by (intro conjI P gone F nofaces count named one)
qed

theorem label_person_merge_witness:
  "persons (label_person 5 ''Alice'' store4) = [mk_person 7 ''Alice'' 1] \<and>
   5 \<notin> p_id ` set (persons (label_person 5 ''Alice'' store4)) \<and>
   length (filter (\<lambda>f. f_person_id f = Some 7) (faces (label_person 5 ''Alice'' store4))) = 7 \<and>
   length (filter (\<lambda>p. p_name p = Some ''Alice'') (persons (label_person 5 ''Alice'' store4))) = 1"
proof -
  have a: "5 \<in> p_id ` set (persons store4)"
    by (simp add: store4_def mk_person_def)
  have b: "filter (\<lambda>p. p_name p = Some ''Alice'' \<and> p_id p \<noteq> 5) (persons store4) =
           mk_person 7 ''Alice'' 1 # []"
    by (simp add: store4_def mk_person_def)
  from label_person_merge [OF a b] show ?thesis
    by (simp add: store4_def mk_person_def mk_face_def)
qed

text \<open>
  How two persons come to bear one name: a new person is named after the number of
  centroids, whatever names are in use. In \<open>store4r\<close> there are two centroids, so the
  new person is called "Person 3" like person 3.
\<close>

lemma duplicate_name_arises:
  "map p_name (persons store4r) = [Some ''Alice'', Some ''Person 3''] \<and>
   map p_id (persons (fst (cluster_new_faces (exact_env ScanFaces one_group) 5 (3 / 5) 2 store4r))) =
     [1, 3, 4] \<and>
   map p_name (persons (fst (cluster_new_faces (exact_env ScanFaces one_group) 5 (3 / 5) 2 store4r))) =
     [Some ''Alice'', Some ''Person 3'', Some ''Person 3'']"
proof -
  have nm: "str_int 3 = ''3''"
    by (simp add: str_int_def str_nat.simps)
  show ?thesis
    by (simp add: eval_defs one_group_def set_iter_def insert_person_def next_person_id_def
        assign_cluster_def upt_conv_Cons nm store4r_def case_prod_beta)
qed

text \<open>Labelling person 5 with "Person 3" in \<open>store4d\<close>, where persons 7 and 8 bear that
  name, leaves two persons bearing it.\<close>

theorem label_person_merge_counterexample:
  "map p_id (persons store4d) = [5, 7, 8] \<and>
   map p_name (persons store4d) = [Some ''Bob'', Some ''Person 3'', Some ''Person 3''] \<and>
   map p_id (persons (label_person 5 ''Person 3'' store4d)) = [7, 8] \<and>
   map p_name (persons (label_person 5 ''Person 3'' store4d)) = [Some ''Person 3'', Some ''Person 3''] \<and>
   map f_person_id (faces (label_person 5 ''Person 3'' store4d)) = [Some 7, Some 7, Some 8]"
  by (simp add: label_person_def store4d_def mk_person_def mk_face_def)

subsection \<open>Inserting persons and assigning clusters\<close>

lemma fold_max_ge: "(b::int) \<le> fold max xs b"
proof (induction xs arbitrary: b)
  case Nil
  show ?case by simp
next
  case (Cons x xs)
  have "b \<le> max x b" by simp
  also have "\<dots> \<le> fold max xs (max x b)" by (rule Cons.IH)
  finally show ?case by simp
qed

lemma next_person_id_fresh: "persons_seq s < next_person_id s"
  using fold_max_ge [of "persons_seq s" "map p_id (persons s)"]
  by (simp add: next_person_id_def)

lemma insert_person_simps:
  "persons (fst (insert_person now nm s)) =
     persons s @ [\<lparr>p_id = next_person_id s, p_name = Some nm, p_confirmed = Some 0, p_created_at = Some now\<rparr>]"
  "faces (fst (insert_person now nm s)) = faces s"
  "persons_seq (fst (insert_person now nm s)) = next_person_id s"
  "snd (insert_person now nm s) = next_person_id s"
  by (simp_all add: insert_person_def Let_def)

lemma update_face_person_simps:
  "persons (update_face_person now pid fid s) = persons s"
  "persons_seq (update_face_person now pid fid s) = persons_seq s"
  "faces (update_face_person now pid fid s) =
     map (\<lambda>f. if f_id f = fid then f\<lparr>f_person_id := Some pid, f_updated_at := Some now\<rparr> else f) (faces s)"
  by (simp_all add: update_face_person_def)

lemma fold_update_face_person_frame:
  "persons (fold (\<lambda>x. update_face_person now pid (g x)) xs s) = persons s \<and>
   persons_seq (fold (\<lambda>x. update_face_person now pid (g x)) xs s) = persons_seq s \<and>
   f_person_id ` set (faces (fold (\<lambda>x. update_face_person now pid (g x)) xs s))
     \<subseteq> insert (Some pid) (f_person_id ` set (faces s))"
proof (induction xs arbitrary: s)
  case Nil
  show ?case by auto
next
  case (Cons x xs)
  have "f_person_id ` set (faces (update_face_person now pid (g x) s))
          \<subseteq> insert (Some pid) (f_person_id ` set (faces s))"
    by (auto simp: update_face_person_simps)
  with Cons.IH [of "update_face_person now pid (g x) s"] show ?case
    by (auto simp: update_face_person_simps)
qed

lemma assign_cluster_frame:
  "persons (assign_cluster now ids labels cid pid s) = persons s"
  "persons_seq (assign_cluster now ids labels cid pid s) = persons_seq s"
  "f_person_id ` set (faces (assign_cluster now ids labels cid pid s))
     \<subseteq> insert (Some pid) (f_person_id ` set (faces s))"
  using fold_update_face_person_frame [of now pid "\<lambda>i. ids ! i" _ s]
  by (simp_all add: assign_cluster_def Let_def)

lemma rebuilt_step:
  assumes "rebuilt seq0 st"
  shows "rebuilt seq0 (assign_cluster now ids labels cid (snd (insert_person now nm st))
                         (fst (insert_person now nm st)))"
proof -
  let ?st1 = "fst (insert_person now nm st)"
  let ?pid = "next_person_id st"
  let ?st2 = "assign_cluster now ids labels cid ?pid ?st1"
  have fresh: "persons_seq st < ?pid" by (rule next_person_id_fresh)
  have P: "persons ?st2 = persons st @
      [\<lparr>p_id = ?pid, p_name = Some nm, p_confirmed = Some 0, p_created_at = Some now\<rparr>]"
    by (simp add: assign_cluster_frame insert_person_simps)
  have S: "persons_seq ?st2 = ?pid"
    by (simp add: assign_cluster_frame insert_person_simps)
  have F: "f_person_id ` set (faces ?st2) \<subseteq> insert (Some ?pid) (f_person_id ` set (faces st))"
    using assign_cluster_frame(3) [of now ids labels cid ?pid ?st1]
    by (simp add: insert_person_simps)
  have 1: "seq0 \<le> persons_seq ?st2"
    using assms fresh by (simp add: S rebuilt_def)
  have 2: "\<forall>p \<in> set (persons ?st2). seq0 < p_id p \<and> p_id p \<le> persons_seq ?st2 \<and> p_confirmed p = Some 0"
    using assms fresh by (auto simp: P S rebuilt_def)
  have 3: "\<forall>f \<in> set (faces ?st2). f_person_id f = None \<or> f_person_id f \<in> Some ` p_id ` set (persons ?st2)"
  proof
    fix f assume "f \<in> set (faces ?st2)"
    then have "f_person_id f \<in> insert (Some ?pid) (f_person_id ` set (faces st))"
      using F by blast
    then consider "f_person_id f = Some ?pid" | g where "g \<in> set (faces st)" "f_person_id f = f_person_id g"
      by auto
    then show "f_person_id f = None \<or> f_person_id f \<in> Some ` p_id ` set (persons ?st2)"
    proof cases
      case 1
      then show ?thesis by (simp add: P)
    next
      case 2
      with assms have "f_person_id g = None \<or> f_person_id g \<in> Some ` p_id ` set (persons st)"
        by (simp add: rebuilt_def)
      with 2 show ?thesis by (auto simp: P)
    qed
  qed
  show ?thesis
    using 1 2 3 by (simp add: rebuilt_def insert_person_simps)
qed

lemma rebuilt_fold:
  assumes "rebuilt seq0 st"
  shows "rebuilt seq0
           (fold (\<lambda>cluster_id st.
                    let (st', person_id) = insert_person now (nm cluster_id) st
                    in assign_cluster now ids labels cluster_id person_id st') cs st)"
  using assms
proof (induction cs arbitrary: st)
  case Nil
  then show ?case by simp
next
  case (Cons c cs)
  let ?F = "\<lambda>cluster_id st.
                    let (st', person_id) = insert_person now (nm cluster_id) st
                    in assign_cluster now ids labels cluster_id person_id st'"
  have "rebuilt seq0 (?F c st)"
    using rebuilt_step [OF Cons.prems, of now ids labels c "nm c"]
    by (simp add: case_prod_beta Let_def)
  from Cons.IH [OF this] show ?case
    by simp
qed
subsection \<open>Batch clustering resets the database\<close>

lemma length_select_faces_with_embedding:
  "length (select_faces_with_embedding s) = length (filter (\<lambda>f. f_embedding f \<noteq> None) (faces s))"
  by (simp add: select_faces_with_embedding_def List.map_filter_def)

lemma cluster_faces_raises:
  assumes "INSIGHTFACE_AVAILABLE env"
    and "min_samples \<le> int (length (select_faces_with_embedding s))"
    and "DBSCAN_error env eps min_samples (map snd (select_faces_with_embedding s)) = Some e"
  shows "cluster_faces env now eps min_samples s = Raised e s"
  using assms by (simp add: cluster_faces_def Let_def)

lemma cluster_faces_returns:
  assumes "INSIGHTFACE_AVAILABLE env"
    and "min_samples \<le> int (length (select_faces_with_embedding s))"
    and "DBSCAN_error env eps min_samples (map snd (select_faces_with_embedding s)) = None"
  shows "cluster_faces env now eps min_samples s =
           Returned (database (cluster_faces env now eps min_samples s))"
  using assms by (simp add: cluster_faces_def Let_def)

lemma cluster_faces_rebuilt:
  assumes "INSIGHTFACE_AVAILABLE env"
    and "min_samples \<le> int (length (select_faces_with_embedding s))"
    and "DBSCAN_error env eps min_samples (map snd (select_faces_with_embedding s)) = None"
  shows "rebuilt (persons_seq s) (database (cluster_faces env now eps min_samples s))"
proof -
  let ?s2 = "s\<lparr>faces := map (\<lambda>f. f\<lparr>f_person_id := None\<rparr>) (faces s), persons := []\<rparr>"
  have "rebuilt (persons_seq s) ?s2"
    by (simp add: rebuilt_def)
  from rebuilt_fold [OF this] show ?thesis
    using assms by (simp add: cluster_faces_def Let_def)
qed

text \<open>
  C6 (as amended). Let \<open>cluster_faces\<close> run with at least \<open>min_samples\<close> faces that have
  an embedding (every person id being at most the sequence value, as SQLite keeps it).
  If the clustering of these embeddings returns, \<open>cluster_faces\<close> returns, and afterwards
  every person row is new: its id is above every id ever used, it is unconfirmed and it is
  none of the rows from before the call, confirmed or not; every face has either no person
  or one of the new persons, and no face points to a person from before the call. If the
  clustering raises, \<open>cluster_faces\<close> raises the same exception and the database is as it
  was.
\<close>

theorem cluster_faces_resets:
  assumes "INSIGHTFACE_AVAILABLE env"
    and "min_samples \<le> int (length (filter (\<lambda>f. f_embedding f \<noteq> None) (faces s)))"
    and "\<forall>p \<in> set (persons s). p_id p \<le> persons_seq s"
  shows
    "(DBSCAN_error env eps min_samples (map snd (select_faces_with_embedding s)) = None \<longrightarrow>
        cluster_faces env now eps min_samples s =
          Returned (database (cluster_faces env now eps min_samples s)) \<and>
        (\<forall>p \<in> set (persons (database (cluster_faces env now eps min_samples s))).
           persons_seq s < p_id p \<and> p_confirmed p = Some 0 \<and> p \<notin> set (persons s)) \<and>
        (\<forall>f \<in> set (faces (database (cluster_faces env now eps min_samples s))).
           f_person_id f = None \<or>
           f_person_id f \<in>
             Some ` p_id ` set (persons (database (cluster_faces env now eps min_samples s)))) \<and>
        (\<forall>f \<in> set (faces (database (cluster_faces env now eps min_samples s))).
           \<forall>p \<in> set (persons s). f_person_id f \<noteq> Some (p_id p))) \<and>
     (\<forall>e. DBSCAN_error env eps min_samples (map snd (select_faces_with_embedding s)) = Some e \<longrightarrow>
        cluster_faces env now eps min_samples s = Raised e s)"
proof (intro conjI impI allI)
  have len: "min_samples \<le> int (length (select_faces_with_embedding s))"
    using assms(2) by (simp add: length_select_faces_with_embedding)
  {
    fix e assume "DBSCAN_error env eps min_samples (map snd (select_faces_with_embedding s)) = Some e"
    with assms(1) len show "cluster_faces env now eps min_samples s = Raised e s"
      by (rule cluster_faces_raises)
  }
  assume ok: "DBSCAN_error env eps min_samples (map snd (select_faces_with_embedding s)) = None"
  let ?s' = "database (cluster_faces env now eps min_samples s)"
  show "cluster_faces env now eps min_samples s = Returned ?s'"
    using assms(1) len ok by (rule cluster_faces_returns)
  have r: "rebuilt (persons_seq s) ?s'"
    using assms(1) len ok by (rule cluster_faces_rebuilt)
  have new: "\<forall>p \<in> set (persons ?s'). persons_seq s < p_id p \<and> p_confirmed p = Some 0"
    using r by (simp add: rebuilt_def)
  show 1: "\<forall>p \<in> set (persons ?s').
        persons_seq s < p_id p \<and> p_confirmed p = Some 0 \<and> p \<notin> set (persons s)"
    using new assms(3) by fastforce
  show 2: "\<forall>f \<in> set (faces ?s').
        f_person_id f = None \<or> f_person_id f \<in> Some ` p_id ` set (persons ?s')"
    using r by (simp add: rebuilt_def)
  show "\<forall>f \<in> set (faces ?s'). \<forall>p \<in> set (persons s). f_person_id f \<noteq> Some (p_id p)"
  proof (intro ballI)
    fix f p assume f: "f \<in> set (faces ?s')" and p: "p \<in> set (persons s)"
    show "f_person_id f \<noteq> Some (p_id p)"
    proof
      assume eq: "f_person_id f = Some (p_id p)"
      with 2 f obtain q where q: "q \<in> set (persons ?s')" "p_id q = p_id p" by auto
      with new have "persons_seq s < p_id p" by auto
      with assms(3) p show False by fastforce
    qed
  qed
qed

theorem cluster_faces_resets_witness:
  "cluster_faces (exact_env ScanFaces one_group) 5 (19 / 50) 2 store7 =
     Returned
       \<lparr>faces = [(mk_face 1 (Some 3) (Some [1, 0]) (Some 0))\<lparr>f_updated_at := Some 5\<rparr>,
                 (mk_face 2 (Some 3) (Some [0, 1]) (Some 0))\<lparr>f_updated_at := Some 5\<rparr>,
                 (mk_face 3 (Some 3) (Some [1, 1]) (Some 0))\<lparr>f_updated_at := Some 5\<rparr>],
        persons = [\<lparr>p_id = 3, p_name = Some ''Person 1'', p_confirmed = Some 0, p_created_at = Some 5\<rparr>],
        persons_seq = 3\<rparr> \<and>
   set (persons (database (cluster_faces (exact_env ScanFaces one_group) 5 (19 / 50) 2 store7))) \<inter>
     set (persons store7) = {} \<and>
   cluster_faces (exact_env ScanFaces one_group) 5 (- 1) 2 store7 = Raised ValueError store7"
proof -
  let ?E = "exact_env ScanFaces one_group"
  have a: "INSIGHTFACE_AVAILABLE ?E" by (simp add: exact_env_def)
  have b: "2 \<le> int (length (filter (\<lambda>f. f_embedding f \<noteq> None) (faces store7)))"
    by (simp add: store7_def mk_face_def)
  have c: "\<forall>p \<in> set (persons store7). p_id p \<le> persons_seq store7"
    by (simp add: store7_def mk_person_def)
  have ok: "DBSCAN_error ?E (19 / 50) 2 (map snd (select_faces_with_embedding store7)) = None"
    and bad: "DBSCAN_error ?E (- 1) 2 (map snd (select_faces_with_embedding store7)) = Some ValueError"
    by (simp_all add: exact_env_def)
  have ev: "database (cluster_faces ?E 5 (19 / 50) 2 store7) =
     \<lparr>faces = [(mk_face 1 (Some 3) (Some [1, 0]) (Some 0))\<lparr>f_updated_at := Some 5\<rparr>,
               (mk_face 2 (Some 3) (Some [0, 1]) (Some 0))\<lparr>f_updated_at := Some 5\<rparr>,
               (mk_face 3 (Some 3) (Some [1, 1]) (Some 0))\<lparr>f_updated_at := Some 5\<rparr>],
      persons = [\<lparr>p_id = 3, p_name = Some ''Person 1'', p_confirmed = Some 0, p_created_at = Some 5\<rparr>],
      persons_seq = 3\<rparr>"
    by (simp add: cluster_faces_def select_faces_with_embedding_def List.map_filter_def
        exact_env_def one_group_def set_iter_def insert_person_def next_person_id_def
        assign_cluster_def update_face_person_def str_int_def str_nat.simps
        store7_def mk_face_def mk_person_def Let_def upt_conv_Cons)
  note t = cluster_faces_resets [OF a b c, of "19 / 50" 5]
  from t ok have 1: "cluster_faces ?E 5 (19 / 50) 2 store7 =
      Returned (database (cluster_faces ?E 5 (19 / 50) 2 store7))"
    by blast
  from t ok have 2: "set (persons (database (cluster_faces ?E 5 (19 / 50) 2 store7))) \<inter>
      set (persons store7) = {}"
    by blast
  from cluster_faces_resets [OF a b c, of "- 1" 5] bad
  have 3: "cluster_faces ?E 5 (- 1) 2 store7 = Raised ValueError store7"
    by blast
  from 1 2 3 show ?thesis
    by (simp only: ev)
qed

text \<open>
  With \<open>--eps 0\<close> and \<open>--min-samples 2\<close> on \<open>store7\<close>, which has three faces with an
  embedding, the clustering raises before anything is written: persons 1 and 2 and the
  assignments of faces 1 and 2 are all still there.
\<close>

theorem cluster_faces_resets_counterexample:
  "int (length (select_faces_with_embedding store7)) = 3 \<and>
   cluster_faces (exact_env ScanFaces one_group) 5 0 2 store7 = Raised ValueError store7 \<and>
   map p_id (persons (database (cluster_faces (exact_env ScanFaces one_group) 5 0 2 store7))) = [1, 2] \<and>
   map f_person_id (faces (database (cluster_faces (exact_env ScanFaces one_group) 5 0 2 store7))) =
     [Some 1, Some 2, None]"
proof -
  have n: "int (length (select_faces_with_embedding store7)) = 3"
    by (simp add: select_faces_with_embedding_def List.map_filter_def store7_def mk_face_def)
  have r: "cluster_faces (exact_env ScanFaces one_group) 5 0 2 store7 = Raised ValueError store7"
    by (rule cluster_faces_raises) (simp_all add: exact_env_def n)
  show ?thesis
    by (simp add: n r) (simp add: store7_def mk_face_def mk_person_def)
qed

subsection \<open>The two phases of a pass\<close>

lemma cluster_new_faces_phases:
  assumes "INSIGHTFACE_AVAILABLE env" "select_new_faces s \<noteq> []"
    "select_existing_data (join_order env) s \<noteq> []"
  shows "cluster_new_faces env now thr msn s =
           (fst (create_new_people env now msn (phase1 env now thr s)),
            Some (m_assigned_count (phase1 env now thr s),
                  snd (create_new_people env now msn (phase1 env now thr s))))"
  using assms by (simp add: cluster_new_faces_def phase1_def Let_def case_prod_beta)







subsection \<open>New people from the unmatched faces\<close>














subsection \<open>A pass that makes no progress\<close>

lemma match_face_count:
  "m_assigned_count m \<le> m_assigned_count (match_face env now thr fr m)"
  by (auto simp: match_face_def split: prod.splits option.splits)

lemma match_faces_count:
  "m_assigned_count m \<le> m_assigned_count (match_faces env now thr fs m)"
proof (induction fs arbitrary: m)
  case Nil
  show ?case by (simp add: match_faces_def)
next
  case (Cons f fs)
  have "m_assigned_count m \<le> m_assigned_count (match_face env now thr f m)"
    by (rule match_face_count)
  also have "\<dots> \<le> m_assigned_count (match_faces env now thr fs (match_face env now thr f m))"
    by (rule Cons.IH)
  finally show ?case by (simp add: match_faces_Cons)
qed

lemma match_face_idle:
  assumes "m_assigned_count (match_face env now thr (fid, e) m) = m_assigned_count m"
  shows "match_face env now' thr (fid, e) m = m\<lparr>m_unmatched := m_unmatched m @ [(fid, e)]\<rparr>"
  using assms by (auto simp: match_face_def split: prod.splits option.splits if_splits)

lemma match_faces_idle:
  assumes "m_assigned_count (match_faces env now thr fs m) = m_assigned_count m"
  shows "match_faces env now' thr fs m = m\<lparr>m_unmatched := m_unmatched m @ fs\<rparr>"
  using assms
proof (induction fs arbitrary: m)
  case Nil
  show ?case by (simp add: match_faces_def)
next
  case (Cons f fs)
  obtain fid e where f: "f = (fid, e)" by (cases f)
  let ?m1 = "match_face env now thr f m"
  have "m_assigned_count m \<le> m_assigned_count ?m1" by (rule match_face_count)
  moreover have "m_assigned_count ?m1 \<le> m_assigned_count (match_faces env now thr fs ?m1)"
    by (rule match_faces_count)
  ultimately have c1: "m_assigned_count ?m1 = m_assigned_count m"
    and c2: "m_assigned_count (match_faces env now thr fs ?m1) = m_assigned_count ?m1"
    using Cons.prems by (simp_all add: match_faces_Cons)
  have idle: "\<And>t. match_face env t thr f m = m\<lparr>m_unmatched := m_unmatched m @ [f]\<rparr>"
    using match_face_idle [OF c1 [unfolded f]] by (simp add: f)
  have "match_faces env now' thr fs ?m1 = ?m1\<lparr>m_unmatched := m_unmatched ?m1 @ fs\<rparr>"
    by (rule Cons.IH [OF c2])
  then show ?case
    by (simp add: match_faces_Cons idle)
qed

lemma fold_counting:
  assumes "\<And>c st k. snd (f c (st, k)) = Suc k"
  shows "snd (fold f cs (st, k)) = k + length cs"
proof (induction cs arbitrary: st k)
  case Nil
  show ?case by simp
next
  case (Cons c cs)
  obtain st' where "f c (st, k) = (st', Suc k)"
    using assms [of c st k] by (cases "f c (st, k)") simp
  then show ?case by (simp add: Cons.IH)
qed

lemma create_new_people_none:
  assumes "snd (create_new_people env now msn m) = 0"
  shows "create_new_people env now' msn m = (m_store m, 0)"
proof (cases "msn \<le> int (length (m_unmatched m))")
  case False
  then show ?thesis by (simp add: create_new_people_def)
next
  case True
  let ?labels = "DBSCAN env (4 / 10) msn (map snd (m_unmatched m))"
  let ?cs = "set_iter (filter (\<lambda>label. label \<noteq> - 1) ?labels)"
  let ?f = "\<lambda>cluster_id (st, new_people_count).
                let next_person_num = int (length (m_centroids m)) + int new_people_count + 1;
                    (st', new_person_id) = insert_person now (''Person '' @ str_int next_person_num) st
                in (assign_cluster now (map fst (m_unmatched m)) ?labels cluster_id new_person_id st',
                    new_people_count + 1)"
  have "snd (fold ?f ?cs (m_store m, 0)) = 0 + length ?cs"
    by (rule fold_counting) (simp add: Let_def case_prod_beta)
  moreover have "create_new_people env now msn m = fold ?f ?cs (m_store m, 0)"
    using True by (simp add: create_new_people_def Let_def)
  ultimately have "length ?cs = 0" using assms by simp
  then have "?cs = []" by simp
  with True show ?thesis
    by (simp add: create_new_people_def Let_def)
qed

lemma pass_zero_unchanged:
  assumes "cluster_new_faces env now thr msn s = (s', Some (0, 0))"
  shows "cluster_new_faces env now' thr msn s = (s, Some (0, 0))"
proof -
  from assms have a: "INSIGHTFACE_AVAILABLE env" and n: "select_new_faces s \<noteq> []"
    and e: "select_existing_data (join_order env) s \<noteq> []"
    by (auto simp: cluster_new_faces_def Let_def split: if_splits)
  note ph = cluster_new_faces_phases [OF a n e]
  let ?m0 = "\<lparr>m_store = s,
        m_centroids = calculate_centroids env (select_existing_data (join_order env) s),
        m_assigned_count = 0, m_unmatched = []\<rparr>"
  from assms have c: "m_assigned_count (phase1 env now thr s) = 0"
    and p: "snd (create_new_people env now msn (phase1 env now thr s)) = 0"
    unfolding ph by simp_all
  have idle: "\<And>t. phase1 env t thr s = ?m0\<lparr>m_unmatched := select_new_faces s\<rparr>"
    using match_faces_idle [of env now "float_threshold env thr" "select_new_faces s" ?m0] c
    by (simp add: phase1_def)
  have "create_new_people env now' msn (phase1 env now' thr s) = (s, 0)"
    using create_new_people_none [of env now msn "phase1 env now thr s" now'] p
    by (simp add: idle)
  with c show ?thesis
    unfolding ph by (simp add: idle)
qed

lemma sqrt_squares:
  "sqrt 361 = 19" "sqrt 169 = 13" "sqrt 400 = 20" "sqrt 1369 = 37"
  by (rule real_sqrt_unique; simp)+

lemma store1_pass:
  "cluster_new_faces (exact_env ScanFaces all_noise) 5 (3 / 5) 30 store1 = (store1b, Some (1, 0))"
  by (simp add: eval_defs store1_def store1b_def sqrt_squares real_sqrt_divide)

lemma store1b_pass:
  "cluster_new_faces (exact_env ScanFaces all_noise) 6 (3 / 5) 30 store1b = (store1c, Some (1, 0))"
  by (simp add: eval_defs store1b_def store1c_def sqrt_squares real_sqrt_divide)

lemma store11_pass:
  "cluster_new_faces (exact_env ScanFaces all_noise) 5 (3 / 5) 30 store11 = (store11b, Some (1, 0))"
  by (simp add: eval_defs store11_def store11b_def)

lemma store11b_pass:
  "cluster_new_faces (exact_env ScanFaces all_noise) 6 (3 / 5) 30 store11b = (store11b, None)"
  by (simp add: eval_defs store11b_def)
subsection \<open>Running the loop again\<close>

lemma cluster_loop_exhausted:
  "\<not> iteration v < maxit \<Longrightarrow> cluster_loop env clock thr msn maxit s v = Completed s v"
  by (subst cluster_loop.simps) simp

lemma cluster_loop_last_zero:
  "cluster_loop env clock thr msn maxit s v = Completed s1 v1 \<Longrightarrow>
   history v1 = history v @ h \<Longrightarrow> h \<noteq> [] \<Longrightarrow> last h = (0, 0) \<Longrightarrow>
   iteration v < maxit \<and> (\<exists>s0 t. cluster_new_faces env t thr msn s0 = (s1, Some (0, 0)))"
proof (induction env clock thr msn maxit s v arbitrary: h rule: cluster_loop.induct)
  case (1 env clock thr msn maxit s v)
  let ?v1 = "v\<lparr>iteration := iteration v + 1\<rparr>"
  have lt: "iteration v < maxit"
  proof (rule ccontr)
    assume "\<not> iteration v < maxit"
    from cluster_loop_exhausted [OF this] "1.prems"(1) have "v1 = v" by simp
    with "1.prems"(2,3) show False by simp
  qed
  obtain s' r where pass: "cluster_new_faces env (clock (iteration ?v1)) thr msn s = (s', r)"
    by (cases "cluster_new_faces env (clock (iteration ?v1)) thr msn s")
  from "1.prems"(1) lt pass obtain a n where r: "r = Some (a, n)"
    by (cases r) (auto simp: cluster_loop.simps [of env clock thr msn maxit s v] Let_def)
  let ?v2 = "?v1\<lparr>total_assigned := total_assigned ?v1 + a,
                   total_new_people := total_new_people ?v1 + n,
                   history := history ?v1 @ [(a, n)]\<rparr>"
  show ?case
  proof (cases "a = 0 \<and> n = 0")
    case True
    have "cluster_loop env clock thr msn maxit s v = Completed s' ?v2"
      using lt pass r True by (subst cluster_loop.simps) (simp add: Let_def)
    with "1.prems"(1) have "s1 = s'" by simp
    with pass r True lt show ?thesis by blast
  next
    case False
    have eq: "cluster_loop env clock thr msn maxit s v =
              cluster_loop env clock thr msn maxit s' ?v2"
      using lt pass r False by (subst cluster_loop.simps) (auto simp: Let_def)
    with "1.prems"(1) have run: "cluster_loop env clock thr msn maxit s' ?v2 = Completed s1 v1"
      by simp
    from cluster_loop_history [of env clock thr msn maxit s' ?v2] run
    obtain h' where h': "history v1 = history ?v2 @ h'" by auto
    with "1.prems"(2) have h: "h = (a, n) # h'" by simp
    have ne: "h' \<noteq> []"
    proof
      assume "h' = []"
      with h "1.prems"(4) False show False by simp
    qed
    with h "1.prems"(4) have l: "last h' = (0, 0)" by simp
    from "1.IH" [OF lt refl pass [symmetric] r refl refl False run h' ne l] lt
    show ?thesis by blast
  qed
qed

lemma cluster_loop_stop:
  assumes "iteration v < maxit"
    and "cluster_new_faces env (clock (iteration v + 1)) thr msn s0 = (s', Some (0, 0))"
  shows "cluster_loop env clock thr msn maxit s0 v =
           Completed s' (v\<lparr>iteration := iteration v + 1, history := history v @ [(0, 0)]\<rparr>)"
  using assms by (subst cluster_loop.simps) (simp add: Let_def)

lemma cluster_loop_continue:
  assumes "iteration v < maxit" and "(a, n) \<noteq> (0, 0)"
    and "cluster_new_faces env (clock (iteration v + 1)) thr msn s0 = (s', Some (a, n))"
  shows "cluster_loop env clock thr msn maxit s0 v =
           cluster_loop env clock thr msn maxit s'
             (v\<lparr>iteration := iteration v + 1,
                total_assigned := total_assigned v + a,
                total_new_people := total_new_people v + n,
                history := history v @ [(a, n)]\<rparr>)"
  using assms by (subst cluster_loop.simps) (auto simp: Let_def)

lemma cluster_loop_raise:
  assumes "iteration v < maxit"
    and "cluster_new_faces env (clock (iteration v + 1)) thr msn s0 = (s', None)"
  shows "cluster_loop env clock thr msn maxit s0 v = TypeError s' (v\<lparr>iteration := iteration v + 1\<rparr>)"
  using assms by (subst cluster_loop.simps) (simp add: Let_def)

lemma store9_run:
  "cluster_new_faces_loop (exact_env ScanFaces all_noise) (\<lambda>i. 5) (6 / 10) 30 10 store9 =
     Completed store9b
       \<lparr>total_assigned = 1, total_new_people = 0, iteration = 2, history = [(1, 0), (0, 0)]\<rparr>"
proof -
  let ?E = "exact_env ScanFaces all_noise"
  let ?v0 = "\<lparr>total_assigned = 0, total_new_people = 0, iteration = 0, history = []\<rparr>"
  let ?v1 = "\<lparr>total_assigned = 1, total_new_people = 0, iteration = 1, history = [(1, 0)]\<rparr>"
  have "cluster_loop ?E (\<lambda>i. 5) (6 / 10) 30 10 store9 ?v0 =
        cluster_loop ?E (\<lambda>i. 5) (6 / 10) 30 10 store9b ?v1"
    using cluster_loop_continue [where v = ?v0 and clock = "\<lambda>i. 5", OF _ _ store9_pass, of 10] by simp
  moreover have "cluster_loop ?E (\<lambda>i. 5) (6 / 10) 30 10 store9b ?v1 =
        Completed store9b
          \<lparr>total_assigned = 1, total_new_people = 0, iteration = 2, history = [(1, 0), (0, 0)]\<rparr>"
    using cluster_loop_stop [where v = ?v1 and clock = "\<lambda>i. 5", OF _ store9b_pass, of 10] by simp
  ultimately show ?thesis
    by (simp add: cluster_new_faces_loop_def)
qed

text \<open>
  C1 (as amended). If a run of \<open>cluster_new_faces_loop\<close> returns with its last pass
  reporting \<open>(0, 0)\<close>, or without having run a pass, then a second run with the same
  parameters on the database it left, at whatever time, returns as well, leaves the
  database as it is and reports no face assigned and no person created: it runs one pass,
  which reports \<open>(0, 0)\<close>, or none.
\<close>

theorem cluster_new_faces_loop_idempotent:
  assumes "cluster_new_faces_loop env clock thr msn maxit s = Completed s1 v1"
    and "history v1 = [] \<or> last (history v1) = (0, 0)"
  shows "cluster_new_faces_loop env clock' thr msn maxit s1 =
           Completed s1
             (if history v1 = []
              then \<lparr>total_assigned = 0, total_new_people = 0, iteration = 0, history = []\<rparr>
              else \<lparr>total_assigned = 0, total_new_people = 0, iteration = 1, history = [(0, 0)]\<rparr>)"
proof (cases "history v1 = []")
  case True
  let ?v0 = "\<lparr>total_assigned = 0, total_new_people = 0, iteration = 0, history = []\<rparr>"
  from assms(1) have run: "cluster_loop env clock thr msn maxit s ?v0 = Completed s1 v1"
    by (simp add: cluster_new_faces_loop_def)
  from cluster_loop_history [of env clock thr msn maxit s ?v0] run True
  have "\<not> iteration ?v0 < maxit" by auto
  then have ex: "\<And>c st. cluster_loop env c thr msn maxit st ?v0 = Completed st ?v0"
    by (rule cluster_loop_exhausted)
  from run ex have "s1 = s" by simp
  with True ex show ?thesis
    by (simp add: cluster_new_faces_loop_def)
next
  case False
  let ?v0 = "\<lparr>total_assigned = 0, total_new_people = 0, iteration = 0, history = []\<rparr>"
  from assms(1) have run: "cluster_loop env clock thr msn maxit s ?v0 = Completed s1 v1"
    by (simp add: cluster_new_faces_loop_def)
  from False assms(2) have l: "last (history v1) = (0, 0)" by simp
  from cluster_loop_last_zero [OF run _ False l]
  obtain s0 t where lt: "iteration ?v0 < maxit"
    and pass: "cluster_new_faces env t thr msn s0 = (s1, Some (0, 0))"
    by auto
  from pass_zero_unchanged [OF pass, of t] pass have "s1 = s0" by simp
  with pass_zero_unchanged [OF pass] have
    again: "\<And>t'. cluster_new_faces env t' thr msn s1 = (s1, Some (0, 0))" by simp
  have "cluster_loop env clock' thr msn maxit s1 ?v0 =
          Completed s1 \<lparr>total_assigned = 0, total_new_people = 0, iteration = 1, history = [(0, 0)]\<rparr>"
    using lt again by (subst cluster_loop.simps) (simp add: Let_def)
  with False show ?thesis
    by (simp add: cluster_new_faces_loop_def)
qed

theorem cluster_new_faces_loop_idempotent_witness:
  "cluster_new_faces_loop (exact_env ScanFaces all_noise) (\<lambda>i. 5) (6 / 10) 30 10 store9 =
     Completed store9b
       \<lparr>total_assigned = 1, total_new_people = 0, iteration = 2, history = [(1, 0), (0, 0)]\<rparr> \<and>
   cluster_new_faces_loop (exact_env ScanFaces all_noise) (\<lambda>i. 7) (6 / 10) 30 10 store9b =
     Completed store9b
       \<lparr>total_assigned = 0, total_new_people = 0, iteration = 1, history = [(0, 0)]\<rparr>"
  using cluster_new_faces_loop_idempotent [OF store9_run, of "\<lambda>i. 7"] store9_run
  by simp

text \<open>
  With \<open>max_iterations = 1\<close> the first run on \<open>store1\<close> returns after one pass that
  assigned face 3; the second run assigns face 2, which has become similar enough to the
  centroid that now includes face 3. On \<open>store11\<close> the first run returns after assigning
  the only new face, and the second run raises \<open>TypeError\<close>.
\<close>

theorem cluster_new_faces_loop_idempotent_counterexample:
  "cluster_new_faces_loop (exact_env ScanFaces all_noise) (\<lambda>i. 5) (3 / 5) 30 1 store1 =
     Completed store1b
       \<lparr>total_assigned = 1, total_new_people = 0, iteration = 1, history = [(1, 0)]\<rparr> \<and>
   cluster_new_faces_loop (exact_env ScanFaces all_noise) (\<lambda>i. 6) (3 / 5) 30 1 store1b =
     Completed store1c
       \<lparr>total_assigned = 1, total_new_people = 0, iteration = 1, history = [(1, 0)]\<rparr> \<and>
   cluster_new_faces_loop (exact_env ScanFaces all_noise) (\<lambda>i. 5) (3 / 5) 30 1 store11 =
     Completed store11b
       \<lparr>total_assigned = 1, total_new_people = 0, iteration = 1, history = [(1, 0)]\<rparr> \<and>
   cluster_new_faces_loop (exact_env ScanFaces all_noise) (\<lambda>i. 6) (3 / 5) 30 1 store11b =
     TypeError store11b
       \<lparr>total_assigned = 0, total_new_people = 0, iteration = 1, history = []\<rparr>"
proof -
  let ?E = "exact_env ScanFaces all_noise"
  let ?v0 = "\<lparr>total_assigned = 0, total_new_people = 0, iteration = 0, history = []\<rparr>"
  let ?v1 = "\<lparr>total_assigned = 1, total_new_people = 0, iteration = 1, history = [(1, 0)]\<rparr>"
  have ex: "\<And>c st. cluster_loop ?E c (3 / 5) 30 1 st ?v1 = Completed st ?v1"
    by (rule cluster_loop_exhausted) simp
  have "cluster_loop ?E (\<lambda>i. 5) (3 / 5) 30 1 store1 ?v0 =
        cluster_loop ?E (\<lambda>i. 5) (3 / 5) 30 1 store1b ?v1"
    using cluster_loop_continue [where v = ?v0 and clock = "\<lambda>i. 5", OF _ _ store1_pass, of 1]
    by simp
  then have 1: "cluster_loop ?E (\<lambda>i. 5) (3 / 5) 30 1 store1 ?v0 = Completed store1b ?v1"
    by (simp only: ex)
  have "cluster_loop ?E (\<lambda>i. 6) (3 / 5) 30 1 store1b ?v0 =
        cluster_loop ?E (\<lambda>i. 6) (3 / 5) 30 1 store1c ?v1"
    using cluster_loop_continue [where v = ?v0 and clock = "\<lambda>i. 6", OF _ _ store1b_pass, of 1]
    by simp
  then have 2: "cluster_loop ?E (\<lambda>i. 6) (3 / 5) 30 1 store1b ?v0 = Completed store1c ?v1"
    by (simp only: ex)
  have "cluster_loop ?E (\<lambda>i. 5) (3 / 5) 30 1 store11 ?v0 =
        cluster_loop ?E (\<lambda>i. 5) (3 / 5) 30 1 store11b ?v1"
    using cluster_loop_continue [where v = ?v0 and clock = "\<lambda>i. 5", OF _ _ store11_pass, of 1]
    by simp
  then have 3: "cluster_loop ?E (\<lambda>i. 5) (3 / 5) 30 1 store11 ?v0 = Completed store11b ?v1"
    by (simp only: ex)
  have 4: "cluster_loop ?E (\<lambda>i. 6) (3 / 5) 30 1 store11b ?v0 =
        TypeError store11b \<lparr>total_assigned = 0, total_new_people = 0, iteration = 1, history = []\<rparr>"
    using cluster_loop_raise [where v = ?v0 and clock = "\<lambda>i. 6", OF _ store11b_pass, of 1]
    by simp
  show ?thesis
    unfolding cluster_new_faces_loop_def using 1 2 3 4 by (intro conjI)
qed

subsection \<open>Ignored faces\<close>

text \<open>
  C2. Neither query of the recognizer reads the \<open>ignored\<close> column. In \<open>store2\<close> face 2
  is ignored and has no person: \<open>cluster_new_faces\<close> selects it as a new face and assigns
  it to person 1, and \<open>cluster_faces\<close>, with a clustering that puts both faces in one
  group, assigns it to the new person 2.
\<close>

theorem ignored_face_is_clustered:
  "map f_ignored (faces store2) = [Some 0, Some 1] \<and>
   select_new_faces store2 = [(2, [1, 0])] \<and>
   select_faces_with_embedding store2 = [(1, [1, 0]), (2, [1, 0])] \<and>
   cluster_new_faces (exact_env ScanFaces all_noise) 5 (3 / 5) 30 store2 =
     (update_face_person 5 1 2 store2, Some (1, 0)) \<and>
   map f_person_id
     (faces (database (cluster_faces (exact_env ScanFaces one_group) 5 (19 / 50) 2 store2))) =
     [Some 2, Some 2]"
proof -
  have 1: "cluster_new_faces (exact_env ScanFaces all_noise) 5 (3 / 5) 30 store2 =
     (update_face_person 5 1 2 store2, Some (1, 0))"
    by (simp add: eval_defs store2_def)
  have 2: "map f_person_id
     (faces (database (cluster_faces (exact_env ScanFaces one_group) 5 (19 / 50) 2 store2))) =
     [Some 2, Some 2]"
    by (simp add: cluster_faces_def select_faces_with_embedding_def List.map_filter_def
        exact_env_def one_group_def set_iter_def insert_person_def next_person_id_def
        assign_cluster_def update_face_person_def str_int_def str_nat.simps
        store2_def mk_face_def mk_person_def Let_def upt_conv_Cons)
  have 3: "map f_ignored (faces store2) = [Some 0, Some 1]"
    "select_new_faces store2 = [(2, [1, 0])]"
    "select_faces_with_embedding store2 = [(1, [1, 0]), (2, [1, 0])]"
    by (simp_all add: select_new_faces_def select_faces_with_embedding_def List.map_filter_def
        store2_def mk_face_def)
  from 1 2 3 show ?thesis by (intro conjI)
qed

end
